theory Spec2Isabelle
  imports Complex_Main
begin

section \<open>The audio library as the program sees it\<close>

text \<open>
  \<^verbatim>\<open>main.py\<close> does all its signal processing through the \<^verbatim>\<open>AudioSegment\<close> class of an
  audio library that is not part of the repository. The operations the program calls are
  collected in a record; a segment is a value of an arbitrary type \<open>'s\<close>. Every call may
  raise, so every operation that computes a segment returns either the text of the
  exception (\<open>Inl\<close>) or the segment (\<open>Inr\<close>).
\<close>

type_synonym exn = string
type_synonym path = string
type_synonym bytes = "nat list"
type_synonym filesystem = "path \<rightharpoonup> bytes"

text \<open>
  What a call that writes a file leaves behind: the bytes written, or an exception
  together with what the call left at the path (\<open>None\<close>: the path was not touched).
\<close>

datatype write_result = Written bytes | Write_failed exn "bytes option"

record 's audio_lib =
  from_file :: "path \<Rightarrow> string option \<Rightarrow> filesystem \<Rightarrow> exn + 's"
  from_mp3 :: "path \<Rightarrow> filesystem \<Rightarrow> exn + 's"
  from_wav :: "path \<Rightarrow> filesystem \<Rightarrow> exn + 's"
  len :: "'s \<Rightarrow> nat"
  frame_rate :: "'s \<Rightarrow> nat"
  channels :: "'s \<Rightarrow> nat"
  set_frame_rate :: "'s \<Rightarrow> nat \<Rightarrow> exn + 's"
  set_channels :: "'s \<Rightarrow> nat \<Rightarrow> exn + 's"
  apply_gain :: "'s \<Rightarrow> real \<Rightarrow> exn + 's"
  repeat :: "'s \<Rightarrow> nat \<Rightarrow> exn + 's"
  slice_to :: "'s \<Rightarrow> nat \<Rightarrow> exn + 's"
  fade_in :: "'s \<Rightarrow> nat \<Rightarrow> exn + 's"
  fade_out :: "'s \<Rightarrow> nat \<Rightarrow> exn + 's"
  overlay :: "'s \<Rightarrow> 's \<Rightarrow> exn + 's"
  export :: "'s \<Rightarrow> string \<Rightarrow> string list \<Rightarrow> write_result"

text \<open>
  \<open>len L s\<close> is \<^verbatim>\<open>len(s)\<close> (the library counts milliseconds), \<open>apply_gain L s db\<close> is
  \<^verbatim>\<open>s + db\<close>, \<open>repeat L s n\<close> is \<^verbatim>\<open>s * n\<close>, \<open>slice_to L s n\<close> is \<^verbatim>\<open>s[:n]\<close>, and
  \<open>export L s fmt opts\<close> is \<^verbatim>\<open>s.export(path, format=fmt, ...)\<close> with the remaining
  keyword arguments in \<open>opts\<close>.
\<close>

definition bind_exn :: "exn + 'a \<Rightarrow> ('a \<Rightarrow> exn + 'b) \<Rightarrow> exn + 'b" where
  "bind_exn r f = (case r of Inl e \<Rightarrow> Inl e | Inr x \<Rightarrow> f x)"


section \<open>The state the program acts on\<close>

datatype ui_event =
    St_error string
  | St_warning string
  | St_success string
  | St_info string
  | St_audio path
  | St_download string bytes

record world =
  files :: filesystem
  tmp_counter :: nat
  tmp_created :: "path list"
  ui :: "ui_event list"

definition emit :: "ui_event \<Rightarrow> world \<Rightarrow> world" where
  "emit ev w = w\<lparr>ui := ui w @ [ev]\<rparr>"

definition write_file :: "path \<Rightarrow> write_result \<Rightarrow> world \<Rightarrow> world" where
  "write_file p r w =
     (case r of
        Written bs \<Rightarrow> w\<lparr>files := (files w)(p \<mapsto> bs)\<rparr>
      | Write_failed e None \<Rightarrow> w
      | Write_failed e (Some bs) \<Rightarrow> w\<lparr>files := (files w)(p \<mapsto> bs)\<rparr>)"

definition write_exn :: "write_result \<Rightarrow> exn option" where
  "write_exn r = (case r of Written bs \<Rightarrow> None | Write_failed e left \<Rightarrow> Some e)"

text \<open>
  \<^verbatim>\<open>tempfile.NamedTemporaryFile(delete=False, suffix=...)\<close>: a new empty file whose name
  ends in the suffix. With \<^verbatim>\<open>delete=False\<close> leaving the \<^verbatim>\<open>with\<close> block closes the
  handle and keeps the file. \<open>tmp_created\<close> records the names handed out.
\<close>

definition tmp_name :: "nat \<Rightarrow> string \<Rightarrow> path" where
  "tmp_name n suffix = ''/tmp/tmp'' @ replicate n (CHR ''_'') @ suffix"

definition named_temporary_file :: "string \<Rightarrow> world \<Rightarrow> path \<times> world" where
  "named_temporary_file suffix w =
     (let name = tmp_name (tmp_counter w) suffix
      in (name, w\<lparr>files := (files w)(name \<mapsto> []),
                  tmp_counter := Suc (tmp_counter w),
                  tmp_created := tmp_created w @ [name]\<rparr>))"


section \<open>Strings\<close>

text \<open>
  \<^verbatim>\<open>str.split\<close> on one separator, \<^verbatim>\<open>str.lower\<close> and \<^verbatim>\<open>str.strip\<close>, on ASCII text:
  characters outside the ASCII letters keep their case, and the white space stripped is
  the ASCII white space.
\<close>

fun split_on :: "char \<Rightarrow> string \<Rightarrow> string list" where
  "split_on c [] = [[]]"
| "split_on c (x # xs) =
     (if x = c then [] # split_on c xs
      else (case split_on c xs of [] \<Rightarrow> [[x]] | w # ws \<Rightarrow> (x # w) # ws))"

definition lower_char :: "char \<Rightarrow> char" where
  "lower_char c =
     (case map_of (zip ''ABCDEFGHIJKLMNOPQRSTUVWXYZ'' ''abcdefghijklmnopqrstuvwxyz'') c of
        None \<Rightarrow> c
      | Some l \<Rightarrow> l)"

definition lower :: "string \<Rightarrow> string" where
  "lower s = map lower_char s"

definition is_space :: "char \<Rightarrow> bool" where
  "is_space c = (c \<in> set [CHR '' '', CHR 0x09, CHR 0x0A, CHR 0x0B, CHR 0x0C, CHR 0x0D])"

definition strip :: "string \<Rightarrow> string" where
  "strip s = rev (dropWhile is_space (rev (dropWhile is_space s)))"


section \<open>\<^verbatim>\<open>mix_with_music\<close>\<close>

text \<open>Lines 56 to 63: the decoder is chosen by the lower-cased text after the last dot.\<close>

definition load_music :: "'s audio_lib \<Rightarrow> path \<Rightarrow> filesystem \<Rightarrow> exn + 's" where
  "load_music L music_path fs =
     (let music_format = lower (last (split_on (CHR ''.'') music_path))
      in if music_format = ''mp3'' then from_mp3 L music_path fs
         else if music_format \<in> set [''wav'', ''wave''] then from_wav L music_path fs
         else from_file L music_path None fs)"

text \<open>Lines 72 to 75.\<close>

definition align_format :: "'s audio_lib \<Rightarrow> 's \<Rightarrow> 's \<Rightarrow> exn + 's" where
  "align_format L voice music =
     bind_exn
       (if frame_rate L voice \<noteq> frame_rate L music
        then set_frame_rate L music (frame_rate L voice) else Inr music)
       (\<lambda>music.
          if channels L voice \<noteq> channels L music
          then set_channels L music (channels L voice) else Inr music)"

text \<open>Line 77, in exact arithmetic.\<close>

definition volume_db :: "int \<Rightarrow> real" where
  "volume_db music_volume_pct = - 30 + real_of_int music_volume_pct * 0.35"

text \<open>
  Lines 80 to 82. \<^verbatim>\<open>//\<close> raises \<^verbatim>\<open>ZeroDivisionError\<close> on a zero divisor, which the
  model writes out.
\<close>

definition loop_count :: "'s audio_lib \<Rightarrow> 's \<Rightarrow> 's \<Rightarrow> nat" where
  "loop_count L voice music = (len L voice div len L music) + 1"

definition match_duration :: "'s audio_lib \<Rightarrow> 's \<Rightarrow> 's \<Rightarrow> exn + 's" where
  "match_duration L voice music =
     bind_exn
       (if len L music < len L voice
        then (if len L music = 0 then Inl ''integer division or modulo by zero''
              else repeat L music (loop_count L voice music))
        else Inr music)
       (\<lambda>music. slice_to L music (len L voice))"

text \<open>Lines 85 to 88.\<close>

definition apply_fades :: "'s audio_lib \<Rightarrow> bool \<Rightarrow> bool \<Rightarrow> 's \<Rightarrow> exn + 's" where
  "apply_fades L fade_in_flag fade_out_flag music =
     bind_exn (if fade_in_flag then fade_in L music 3000 else Inr music)
       (\<lambda>music. if fade_out_flag then fade_out L music 3000 else Inr music)"

text \<open>Lines 69 to 90: the value of \<^verbatim>\<open>mixed\<close>.\<close>

definition mix_segments ::
  "'s audio_lib \<Rightarrow> 's \<Rightarrow> 's \<Rightarrow> int \<Rightarrow> bool \<Rightarrow> bool \<Rightarrow> exn + 's" where
  "mix_segments L voice music music_volume_pct fade_in_flag fade_out_flag =
     (if music_volume_pct = 0 then Inr voice
      else
        bind_exn (align_format L voice music) (\<lambda>music.
        bind_exn (apply_gain L music (volume_db music_volume_pct)) (\<lambda>music.
        bind_exn (match_duration L voice music) (\<lambda>music.
        bind_exn (apply_fades L fade_in_flag fade_out_flag music) (\<lambda>music.
        overlay L voice music)))))"

text \<open>
  Lines 65 to 90. The function leaves in three ways before the export: the emptiness
  check, an exception, or with the buffer to export.
\<close>

datatype mix_failure = Empty_audio | Raised exn

definition mixed_buffer ::
  "'s audio_lib \<Rightarrow> 's \<Rightarrow> 's \<Rightarrow> int \<Rightarrow> bool \<Rightarrow> bool \<Rightarrow> mix_failure + 's" where
  "mixed_buffer L voice music music_volume_pct fade_in_flag fade_out_flag =
     (if len L voice = 0 \<or> len L music = 0 then Inl Empty_audio
      else (case mix_segments L voice music music_volume_pct fade_in_flag fade_out_flag of
              Inl e \<Rightarrow> Inl (Raised e)
            | Inr mixed \<Rightarrow> Inr mixed))"

text \<open>Lines 55 to 63: both inputs are decoded before anything else.\<close>

definition load_inputs :: "'s audio_lib \<Rightarrow> path \<Rightarrow> path \<Rightarrow> filesystem \<Rightarrow> exn + 's \<times> 's" where
  "load_inputs L voice_path music_path fs =
     bind_exn (from_file L voice_path (Some ''mp3'') fs) (\<lambda>voice.
     bind_exn (load_music L music_path fs) (\<lambda>music. Inr (voice, music)))"

text \<open>The messages of lines 66 and 96, without their leading pictograph.\<close>

definition empty_message :: string where
  "empty_message = ''One of the audio files is empty or corrupted''"

definition mix_error_message :: "exn \<Rightarrow> string" where
  "mix_error_message e = ''Error mixing audio: '' @ e"

definition export_options :: "string list" where
  "export_options = [''bitrate=192k'', ''-q:a'', ''2'']"

text \<open>
  Line 92 passes \<^verbatim>\<open>format="mp3"\<close>, \<^verbatim>\<open>bitrate="192k"\<close> and \<^verbatim>\<open>parameters=["-q:a", "2"]\<close>;
  line 93 returns whether the output exists and is not empty.
\<close>

definition output_nonempty :: "path \<Rightarrow> world \<Rightarrow> bool" where
  "output_nonempty p w = (case files w p of None \<Rightarrow> False | Some bs \<Rightarrow> 0 < length bs)"

text \<open>Lines 53 to 97: the whole function, with the handler of line 95.\<close>

definition mix_with_music ::
  "'s audio_lib \<Rightarrow> path \<Rightarrow> path \<Rightarrow> path \<Rightarrow> int \<Rightarrow> bool \<Rightarrow> bool \<Rightarrow> world \<Rightarrow> bool \<times> world" where
  "mix_with_music L voice_path music_path output_path music_volume_pct fade_in_flag fade_out_flag w =
     (case load_inputs L voice_path music_path (files w) of
        Inl e \<Rightarrow> (False, emit (St_error (mix_error_message e)) w)
      | Inr (voice, music) \<Rightarrow>
          (case mixed_buffer L voice music music_volume_pct fade_in_flag fade_out_flag of
             Inl Empty_audio \<Rightarrow> (False, emit (St_error empty_message) w)
           | Inl (Raised e) \<Rightarrow> (False, emit (St_error (mix_error_message e)) w)
           | Inr mixed \<Rightarrow>
               (let r = export L mixed ''mp3'' export_options; w1 = write_file output_path r w
                in case write_exn r of
                     Some e \<Rightarrow> (False, emit (St_error (mix_error_message e)) w1)
                   | None \<Rightarrow> (output_nonempty output_path w1, w1))))"


section \<open>\<^verbatim>\<open>test_audio_files\<close>\<close>

text \<open>Lines 104 to 107: the value of \<^verbatim>\<open>test_mixed\<close>.\<close>

definition test_mix :: "'s audio_lib \<Rightarrow> 's \<Rightarrow> 's \<Rightarrow> exn + 's" where
  "test_mix L voice music =
     bind_exn (apply_gain L music (- 20)) (\<lambda>test_music.
     bind_exn (slice_to L test_music (min (len L voice) 5000)) (\<lambda>test_music.
     bind_exn (slice_to L voice (min (len L voice) 5000)) (\<lambda>test_voice.
     overlay L test_voice test_music)))"

definition test_error_message :: "exn \<Rightarrow> string" where
  "test_error_message e = ''Audio test failed: '' @ e"

text \<open>Lines 109 to 113: the export into a temporary file that is kept.\<close>

definition export_test :: "'s audio_lib \<Rightarrow> 's \<Rightarrow> world \<Rightarrow> bool \<times> world" where
  "export_test L test_mixed w =
     (let (name, w1) = named_temporary_file ''.mp3'' w;
          r = export L test_mixed ''mp3'' [];
          w2 = write_file name r w1
      in case write_exn r of
           Some e \<Rightarrow> (False, emit (St_error (test_error_message e)) w2)
         | None \<Rightarrow> (True, emit (St_audio name) w2))"

definition test_audio_files :: "'s audio_lib \<Rightarrow> path \<Rightarrow> path \<Rightarrow> world \<Rightarrow> bool \<times> world" where
  "test_audio_files L voice_path music_path w =
     (case bind_exn (from_file L voice_path None (files w)) (\<lambda>voice.
           bind_exn (from_file L music_path None (files w)) (\<lambda>music.
           test_mix L voice music)) of
        Inl e \<Rightarrow> (False, emit (St_error (test_error_message e)) w)
      | Inr test_mixed \<Rightarrow> export_test L test_mixed w)"


section \<open>The Preview and Download buttons\<close>

text \<open>
  The speech synthesis is a second library; \<open>tts text voice\<close> is what
  \<^verbatim>\<open>Communicate(text, voice).save(filename)\<close> leaves at \<open>filename\<close>. Lines 46 to 50 pass
  neither \<^verbatim>\<open>rate\<close> nor \<^verbatim>\<open>pitch\<close> on.
\<close>

definition generate_tts ::
  "(string \<Rightarrow> string \<Rightarrow> write_result) \<Rightarrow> string \<Rightarrow> string \<Rightarrow> path \<Rightarrow> int \<Rightarrow> int \<Rightarrow> world
   \<Rightarrow> exn option \<times> world" where
  "generate_tts tts text voice filename rate pitch w =
     (let r = tts text voice in (write_exn r, write_file filename r w))"

text \<open>
  Lines 176 to 182 and 216 to 222: the uploaded music is copied into a temporary file
  with its own extension, and an empty temporary file is reserved for the result.
\<close>

definition stage_music :: "string \<times> bytes \<Rightarrow> world \<Rightarrow> (path \<times> path) \<times> world" where
  "stage_music uploaded_music w =
     (let music_ext = last (split_on (CHR ''.'') (fst uploaded_music));
          (music_path, w1) = named_temporary_file (''.'' @ music_ext) w;
          w2 = w1\<lparr>files := (files w1)(music_path \<mapsto> snd uploaded_music)\<rparr>;
          (output, w3) = named_temporary_file ''.mp3'' w2
      in ((music_path, output), w3))"

text \<open>Lines 175 and 213: the condition under which music is mixed in.\<close>

definition music_requested :: "bool \<Rightarrow> (string \<times> bytes) option \<Rightarrow> int \<Rightarrow> (string \<times> bytes) option" where
  "music_requested use_music uploaded_music music_volume_pct =
     (if use_music \<and> uploaded_music \<noteq> None \<and> 0 < music_volume_pct then uploaded_music else None)"

text \<open>Lines 165 to 199.\<close>

definition preview_button ::
  "'s audio_lib \<Rightarrow> (string \<Rightarrow> string \<Rightarrow> write_result) \<Rightarrow> string \<Rightarrow> string \<Rightarrow> int \<Rightarrow> int
   \<Rightarrow> bool \<Rightarrow> (string \<times> bytes) option \<Rightarrow> int \<Rightarrow> bool \<Rightarrow> bool \<Rightarrow> world \<Rightarrow> world" where
  "preview_button L tts text voice_id rate pitch use_music uploaded_music music_volume_pct
       fade_in_enabled fade_out_enabled w =
     (if strip text = [] then emit (St_warning ''Please enter some text!'') w
      else
        (let (tmp_voice, w1) = named_temporary_file ''.mp3'' w;
             (raised, w2) = generate_tts tts text voice_id tmp_voice rate pitch w1
         in case raised of
              Some e \<Rightarrow> emit (St_error (''Error generating preview: '' @ e)) w2
            | None \<Rightarrow>
                (case music_requested use_music uploaded_music music_volume_pct of
                   None \<Rightarrow> emit (St_audio tmp_voice) w2
                 | Some up \<Rightarrow>
                     (let ((music_path, preview_output), w3) = stage_music up w2;
                          (success, w4) =
                            mix_with_music L tmp_voice music_path preview_output
                              music_volume_pct fade_in_enabled fade_out_enabled w3
                      in if success
                         then emit (St_audio preview_output)
                                (emit (St_success ''Preview with music ready'') w4)
                         else emit (St_audio tmp_voice) w4))))"

text \<open>Lines 241 to 248: the file is read back and offered for download.\<close>

definition offer_download :: "string \<Rightarrow> path \<Rightarrow> world \<Rightarrow> world" where
  "offer_download user_filename final_output w =
     (let filename = (if strip user_filename = [] then ''output'' else strip user_filename) @ ''.mp3''
      in case files w final_output of
           None \<Rightarrow> emit (St_error (''Error generating audio: No such file or directory'')) w
         | Some data \<Rightarrow> emit (St_download filename data) w)"

text \<open>Lines 203 to 250; \<open>test_first\<close> is the state of the checkbox of line 224.\<close>

definition download_button ::
  "'s audio_lib \<Rightarrow> (string \<Rightarrow> string \<Rightarrow> write_result) \<Rightarrow> string \<Rightarrow> string \<Rightarrow> int \<Rightarrow> int
   \<Rightarrow> bool \<Rightarrow> (string \<times> bytes) option \<Rightarrow> int \<Rightarrow> bool \<Rightarrow> bool \<Rightarrow> bool \<Rightarrow> string
   \<Rightarrow> world \<Rightarrow> world" where
  "download_button L tts text voice_id rate pitch use_music uploaded_music music_volume_pct
       fade_in_enabled fade_out_enabled test_first user_filename w =
     (if strip text = [] then emit (St_warning ''Please enter some text!'') w
      else
        (let (tmp_voice, w1) = named_temporary_file ''.mp3'' w;
             (raised, w2) = generate_tts tts text voice_id tmp_voice rate pitch w1
         in case raised of
              Some e \<Rightarrow> emit (St_error (''Error generating audio: '' @ e)) w2
            | None \<Rightarrow>
                (case music_requested use_music uploaded_music music_volume_pct of
                   None \<Rightarrow> offer_download user_filename tmp_voice w2
                 | Some up \<Rightarrow>
                     (let w3 = emit (St_info ''Mixing with background music...'') w2;
                          ((music_path, mixed_output), w4) = stage_music up w3;
                          w5 = (if test_first
                                then snd (test_audio_files L tmp_voice music_path w4) else w4);
                          (success, w6) =
                            mix_with_music L tmp_voice music_path mixed_output
                              music_volume_pct fade_in_enabled fade_out_enabled w5
                      in if success
                         then offer_download user_filename mixed_output
                                (emit (St_success ''Audio mixed and ready'') w6)
                         else offer_download user_filename tmp_voice w6))))"

text \<open>
  No file is removed between two states, and every temporary file handed out since the
  first one exists in the second.
\<close>

definition keeps_files :: "world \<Rightarrow> world \<Rightarrow> bool" where
  "keeps_files w w' =
     (dom (files w) \<subseteq> dom (files w')
      \<and> set (tmp_created w) \<subseteq> set (tmp_created w')
      \<and> set (tmp_created w') \<subseteq> set (tmp_created w) \<union> dom (files w'))"

definition temps_exist :: "world \<Rightarrow> bool" where
  "temps_exist w = list_all (\<lambda>p. files w p \<noteq> None) (tmp_created w)"


section \<open>A reference audio library\<close>

text \<open>
  Modelled from the spec: the audio library (\<^verbatim>\<open>AudioSegment\<close> and its methods) is not
  part of the repository. The buffer and its transformations below follow sections 3 and
  4.2 of the specification: an \<^verbatim>\<open>AudioBuffer\<close> has a sample rate, a channel count and
  interleaved samples; amplitudes are real numbers and the valid range is taken to be
  \<open>[-1, 1]\<close>.
\<close>

record audio_buffer =
  sample_rate :: nat
  channel_count :: nat
  samples :: "real list"

definition valid_buffer :: "audio_buffer \<Rightarrow> bool" where
  "valid_buffer b =
     (0 < sample_rate b \<and> (channel_count b = 1 \<or> channel_count b = 2)
      \<and> length (samples b) mod channel_count b = 0)"

definition frame_count :: "audio_buffer \<Rightarrow> nat" where
  "frame_count b = length (samples b) div channel_count b"

text \<open>Duration in whole milliseconds, and the number of whole frames in a duration.\<close>

definition duration_ms :: "audio_buffer \<Rightarrow> nat" where
  "duration_ms b = frame_count b * 1000 div sample_rate b"

definition frames_of_ms :: "audio_buffer \<Rightarrow> nat \<Rightarrow> nat" where
  "frames_of_ms b ms = ms * sample_rate b div 1000"

definition frame_at :: "audio_buffer \<Rightarrow> nat \<Rightarrow> real list" where
  "frame_at b i = take (channel_count b) (drop (i * channel_count b) (samples b))"

text \<open>
  Modelled from the spec: resampling by linear interpolation between neighbouring frames;
  the new frame count is rounded up, so the duration changes by less than one frame.
\<close>

definition resampled_frame :: "audio_buffer \<Rightarrow> nat \<Rightarrow> nat \<Rightarrow> real list" where
  "resampled_frame b r j =
     (let i = j * sample_rate b div r;
          t = real (j * sample_rate b mod r) / real r
      in map2 (\<lambda>x y. (1 - t) * x + t * y)
           (frame_at b i) (frame_at b (min (i + 1) (frame_count b - 1))))"

definition resample :: "audio_buffer \<Rightarrow> nat \<Rightarrow> audio_buffer" where
  "resample b r =
     b\<lparr>sample_rate := r,
       samples := concat (map (resampled_frame b r)
                    [0..<(frame_count b * r + sample_rate b - 1) div sample_rate b])\<rparr>"

text \<open>
  Modelled from the spec: channel remapping; every frame becomes its average on each new
  channel (mono to stereo duplicates, stereo to mono averages).
\<close>

definition remap :: "audio_buffer \<Rightarrow> nat \<Rightarrow> audio_buffer" where
  "remap b c =
     b\<lparr>channel_count := c,
       samples := concat (map (\<lambda>i. replicate c (sum_list (frame_at b i) / real (channel_count b)))
                    [0..<frame_count b])\<rparr>"

text \<open>Modelled from the spec: a gain in decibels is a multiplication of every sample.\<close>

definition db_to_linear :: "real \<Rightarrow> real" where
  "db_to_linear db = 10 powr (db / 20)"

definition gain :: "audio_buffer \<Rightarrow> real \<Rightarrow> audio_buffer" where
  "gain b db = b\<lparr>samples := map (\<lambda>x. db_to_linear db * x) (samples b)\<rparr>"

text \<open>Modelled from the spec: whole repetitions, concatenated; truncation to a duration.\<close>

definition loop :: "audio_buffer \<Rightarrow> nat \<Rightarrow> audio_buffer" where
  "loop b n = b\<lparr>samples := concat (replicate n (samples b))\<rparr>"

definition trim :: "audio_buffer \<Rightarrow> nat \<Rightarrow> audio_buffer" where
  "trim b ms = b\<lparr>samples := take (frames_of_ms b ms * channel_count b) (samples b)\<rparr>"

text \<open>
  Modelled from the spec: linear fades. The ramp covers the frames of the given duration,
  or the whole buffer when it is shorter; \<open>ramp n j\<close> is the factor of the frame at
  distance \<open>j\<close> from the silent end of a ramp of \<open>n\<close> frames.
\<close>

definition ramp :: "nat \<Rightarrow> nat \<Rightarrow> real" where
  "ramp n j = (if j < n then real j / real n else 1)"

definition fade_window :: "audio_buffer \<Rightarrow> nat \<Rightarrow> nat" where
  "fade_window b ms = min (frames_of_ms b ms) (frame_count b)"

definition ramp_in :: "audio_buffer \<Rightarrow> nat \<Rightarrow> audio_buffer" where
  "ramp_in b ms =
     b\<lparr>samples := map (\<lambda>(k, x). ramp (fade_window b ms) (k div channel_count b) * x)
                    (enumerate 0 (samples b))\<rparr>"

definition ramp_out :: "audio_buffer \<Rightarrow> nat \<Rightarrow> audio_buffer" where
  "ramp_out b ms =
     b\<lparr>samples := map (\<lambda>(k, x). ramp (fade_window b ms)
                                   (frame_count b - 1 - k div channel_count b) * x)
                    (enumerate 0 (samples b))\<rparr>"

text \<open>
  Modelled from the spec: the overlay sums sample by sample over the positions of the
  first buffer and clips to the valid range; where the second buffer has no sample
  nothing is added.
\<close>

definition clip :: "real \<Rightarrow> real" where
  "clip x = max (- 1) (min 1 x)"

definition overlay_buffers :: "audio_buffer \<Rightarrow> audio_buffer \<Rightarrow> audio_buffer" where
  "overlay_buffers a b =
     a\<lparr>samples := map2 (\<lambda>x y. clip (x + y)) (samples a)
                    (take (length (samples a)) (samples b)
                     @ replicate (length (samples a) - length (samples b)) 0)\<rparr>"

text \<open>
  The codec is outside the specification. To run the program on concrete files the
  reference library reads and writes a minimal uncompressed container: the sample rate,
  the channel count, then one number per sample.
\<close>

definition decode_raw :: "bytes \<Rightarrow> exn + audio_buffer" where
  "decode_raw bs =
     (case bs of
        r # c # rest \<Rightarrow>
          if r = 0 \<or> \<not> (c = 1 \<or> c = 2) \<or> length rest mod c \<noteq> 0
          then Inl ''could not decode''
          else Inr \<lparr>sample_rate = r, channel_count = c,
                    samples = map (\<lambda>n. (real n - 128) / 128) rest\<rparr>
      | _ \<Rightarrow> Inl ''could not decode'')"

definition encode_raw :: "audio_buffer \<Rightarrow> bytes" where
  "encode_raw b =
     sample_rate b # channel_count b # map (\<lambda>x. nat \<lfloor>x * 128 + 128\<rfloor>) (samples b)"

definition read_audio :: "path \<Rightarrow> filesystem \<Rightarrow> exn + audio_buffer" where
  "read_audio p fs =
     (case fs p of None \<Rightarrow> Inl ''No such file or directory'' | Some bs \<Rightarrow> decode_raw bs)"

definition spec_lib :: "audio_buffer audio_lib" where
  "spec_lib =
     \<lparr>from_file = (\<lambda>p fmt fs. read_audio p fs),
      from_mp3 = read_audio,
      from_wav = read_audio,
      len = duration_ms,
      frame_rate = sample_rate,
      channels = channel_count,
      set_frame_rate = (\<lambda>b r. Inr (resample b r)),
      set_channels = (\<lambda>b c. Inr (remap b c)),
      apply_gain = (\<lambda>b db. Inr (gain b db)),
      repeat = (\<lambda>b n. Inr (loop b n)),
      slice_to = (\<lambda>b ms. Inr (trim b ms)),
      fade_in = (\<lambda>b ms. Inr (ramp_in b ms)),
      fade_out = (\<lambda>b ms. Inr (ramp_out b ms)),
      overlay = (\<lambda>a b. Inr (overlay_buffers a b)),
      export = (\<lambda>b fmt opts. Written (encode_raw b))\<rparr>"

text \<open>
  Concrete inputs: a voice of ten seconds, mono at 2 Hz, and music of three seconds,
  stereo at 1 Hz.
\<close>

definition voice10 :: audio_buffer where
  "voice10 = \<lparr>sample_rate = 2, channel_count = 1, samples = replicate 20 (1 / 2)\<rparr>"

definition music3 :: audio_buffer where
  "music3 = \<lparr>sample_rate = 1, channel_count = 2, samples = [1/4, 1/2, 1/4, 0, - 1/4, 0]\<rparr>"


text \<open>A voice of four seconds and music of two seconds, both mono at 1 Hz.\<close>

definition voice4 :: audio_buffer where
  "voice4 = \<lparr>sample_rate = 1, channel_count = 1, samples = [1/2, 1/4, 1/2, 1/4]\<rparr>"

definition music2 :: audio_buffer where
  "music2 = \<lparr>sample_rate = 1, channel_count = 1, samples = [1/8, - 1/8]\<rparr>"

text \<open>
  Files in the container of the reference library: a voice of four frames and music of
  two frames, mono at 1 Hz; a file with a header and no sample; an empty file.
\<close>

definition disk :: filesystem where
  "disk = [''voice.mp3'' \<mapsto> [1, 1, 192, 160, 192, 160],
          ''music.wav'' \<mapsto> [1, 1, 144, 112],
          ''silent.wav'' \<mapsto> [1, 1],
          ''broken.wav'' \<mapsto> []]"

definition world0 :: world where
  "world0 = \<lparr>files = disk, tmp_counter = 0, tmp_created = [], ui = []\<rparr>"

text \<open>
  Three variants of the reference library: one cannot decode, one cannot encode, one
  cannot overlay.
\<close>

definition decode_fails :: "audio_buffer audio_lib" where
  "decode_fails = spec_lib\<lparr>from_file := (\<lambda>p fmt fs. Inl ''boom'')\<rparr>"

definition export_fails :: "audio_buffer audio_lib" where
  "export_fails = spec_lib\<lparr>export := (\<lambda>b fmt opts. Write_failed ''boom'' None)\<rparr>"

definition overlay_fails :: "audio_buffer audio_lib" where
  "overlay_fails = spec_lib\<lparr>overlay := (\<lambda>a b. Inl ''boom'')\<rparr>"

text \<open>A speech synthesis that writes the voice file above, for running the buttons.\<close>

definition tts0 :: "string \<Rightarrow> string \<Rightarrow> write_result" where
  "tts0 text voice = Written [1, 1, 192, 160, 192, 160]"


text \<open>An uploaded music file, and the state of the Preview button once it is staged.\<close>

definition song :: "string \<times> bytes" where
  "song = (''song.wav'', [1, 1, 144, 112])"

definition staged :: world where
  "staged =
     \<lparr>files = disk(''/tmp/tmp.mp3'' \<mapsto> [1, 1, 192, 160, 192, 160],
                   ''/tmp/tmp_.wav'' \<mapsto> [1, 1, 144, 112],
                   ''/tmp/tmp__.mp3'' \<mapsto> []),
      tmp_counter = 3,
      tmp_created = [''/tmp/tmp.mp3'', ''/tmp/tmp_.wav'', ''/tmp/tmp__.mp3''],
      ui = []\<rparr>"


section \<open>Auxiliary facts\<close>

lemma bind_exn_Inr [simp]: "bind_exn (Inr x) f = f x"
  by (simp add: bind_exn_def)

lemma bind_exn_Inl [simp]: "bind_exn (Inl e) f = Inl e"
  by (simp add: bind_exn_def)

lemma ceiling_div_nat:
  fixes a b :: nat
  assumes "0 < b"
  shows "nat \<lceil>real a / real b\<rceil> = (if b dvd a then a div b else a div b + 1)"
proof -
  have split: "real a / real b = real (a div b) + real (a mod b) / real b"
  proof -
    have "real a = real (a div b) * real b + real (a mod b)"
      by (metis of_nat_add of_nat_mult div_mult_mod_eq)
    then show ?thesis using assms by (simp add: field_simps)
  qed
  show ?thesis
  proof (cases "b dvd a")
    case True
    then have "a mod b = 0" by simp
    with split have "real a / real b = real (a div b)" by simp
    then have "\<lceil>real a / real b\<rceil> = int (a div b)" by simp
    with True show ?thesis by simp
  next
    case False
    then have pos: "0 < a mod b" by (simp add: dvd_eq_mod_eq_0)
    have lt: "a mod b < b" using assms by simp
    have "0 < real (a mod b) / real b" using pos assms by simp
    moreover have "real (a mod b) / real b < 1" using lt assms by simp
    ultimately have "\<lceil>real a / real b\<rceil> = int (a div b) + 1"
      unfolding split by (intro ceiling_unique) auto
    with False show ?thesis by simp
  qed
qed

lemmas spec_lib_simps =
  spec_lib_def duration_ms_def frame_count_def frames_of_ms_def

lemma len_voice4: "len spec_lib voice4 = 4000"
  by (simp add: spec_lib_simps voice4_def)

lemma len_music2: "len spec_lib music2 = 2000"
  by (simp add: spec_lib_simps music2_def)

lemma len_voice10: "len spec_lib voice10 = 10000"
  by (simp add: spec_lib_simps voice10_def)

lemma len_music3: "len spec_lib music3 = 3000"
  by (simp add: spec_lib_simps music3_def)

lemma read_voice: "read_audio ''voice.mp3'' disk = Inr voice4"
  by (simp add: read_audio_def disk_def decode_raw_def voice4_def)

lemma read_music: "read_audio ''music.wav'' disk = Inr music2"
  by (simp add: read_audio_def disk_def decode_raw_def music2_def)

lemma read_silent:
  "read_audio ''silent.wav'' disk = Inr \<lparr>sample_rate = 1, channel_count = 1, samples = []\<rparr>"
  by (simp add: read_audio_def disk_def decode_raw_def)

lemma read_broken: "read_audio ''broken.wav'' disk = Inl ''could not decode''"
  by (simp add: read_audio_def disk_def decode_raw_def)

lemma load_music_wav: "load_music spec_lib ''music.wav'' fs = read_audio ''music.wav'' fs"
  by (simp add: load_music_def lower_def lower_char_def spec_lib_def)

lemma load_silent_wav: "load_music spec_lib ''silent.wav'' fs = read_audio ''silent.wav'' fs"
  by (simp add: load_music_def lower_def lower_char_def spec_lib_def)

lemma load_broken_wav: "load_music spec_lib ''broken.wav'' fs = read_audio ''broken.wav'' fs"
  by (simp add: load_music_def lower_def lower_char_def spec_lib_def)

lemma from_file_spec_lib: "from_file spec_lib p fmt fs = read_audio p fs"
  by (simp add: spec_lib_def)

lemma load_inputs_disk:
  "load_inputs spec_lib ''voice.mp3'' ''music.wav'' disk = Inr (voice4, music2)"
  by (simp add: load_inputs_def from_file_spec_lib load_music_wav read_voice read_music)

lemma load_inputs_same_decoders:
  "from_file L = from_file L' \<Longrightarrow> from_mp3 L = from_mp3 L' \<Longrightarrow> from_wav L = from_wav L'
   \<Longrightarrow> load_inputs L = load_inputs L'"
  by (intro ext) (simp add: load_inputs_def load_music_def Let_def)

lemma load_inputs_export_fails:
  "load_inputs export_fails ''voice.mp3'' ''music.wav'' disk = Inr (voice4, music2)"
  using load_inputs_disk load_inputs_same_decoders [of export_fails spec_lib]
  by (simp add: export_fails_def)

lemma load_inputs_overlay_fails:
  "load_inputs overlay_fails ''voice.mp3'' ''music.wav'' disk = Inr (voice4, music2)"
  using load_inputs_disk load_inputs_same_decoders [of overlay_fails spec_lib]
  by (simp add: overlay_fails_def)

lemma len_export_fails: "len export_fails = len spec_lib"
  by (simp add: export_fails_def)

lemma mixed_export_fails:
  "\<exists>mixed. mixed_buffer export_fails voice4 music2 30 True True = Inr mixed"
  by (simp add: mixed_buffer_def mix_segments_def align_format_def match_duration_def
      apply_fades_def len_voice4 len_music2 len_export_fails)
     (simp add: export_fails_def spec_lib_def voice4_def music2_def gain_def duration_ms_def frame_count_def)

lemma export_fails_run:
  "mix_with_music export_fails ''voice.mp3'' ''music.wav'' ''out.mp3'' 30 True True world0
     = (False, emit (St_error ''Error mixing audio: boom'') world0)"
proof -
  obtain mixed where m: "mixed_buffer export_fails voice4 music2 30 True True = Inr mixed"
    using mixed_export_fails by blast
  have e: "export export_fails mixed ''mp3'' export_options = Write_failed ''boom'' None"
    by (simp add: export_fails_def)
  show ?thesis
    by (simp add: mix_with_music_def load_inputs_export_fails world0_def m e write_file_def
        write_exn_def mix_error_message_def)
qed

lemma decode_fails_run:
  "mix_with_music decode_fails ''voice.mp3'' ''music.wav'' ''out.mp3'' 30 True True world0
     = (False, emit (St_error ''Error mixing audio: boom'') world0)"
  by (simp add: mix_with_music_def load_inputs_def decode_fails_def mix_error_message_def)

lemma mixed_overlay_fails:
  "mixed_buffer overlay_fails voice4 music2 30 True True = Inl (Raised ''boom'')"
  by (simp add: mixed_buffer_def mix_segments_def align_format_def match_duration_def
      apply_fades_def)
     (simp add: overlay_fails_def spec_lib_def voice4_def music2_def gain_def duration_ms_def
       frame_count_def loop_def truncate_def ramp_in_def ramp_out_def loop_count_def)

lemma align_voice10_music3:
  "align_format spec_lib voice10 music3 = Inr (remap (resample music3 2) 1)"
  by (simp add: align_format_def spec_lib_def voice10_def music3_def resample_def remap_def)

lemma keeps_files_refl: "keeps_files w w"
  by (simp add: keeps_files_def)

lemma keeps_files_trans:
  assumes "keeps_files a b" and "keeps_files b c"
  shows "keeps_files a c"
proof -
  have 1: "dom (files a) \<subseteq> dom (files b)" "set (tmp_created a) \<subseteq> set (tmp_created b)"
    "set (tmp_created b) \<subseteq> set (tmp_created a) \<union> dom (files b)"
    using assms(1) by (simp_all add: keeps_files_def)
  have 2: "dom (files b) \<subseteq> dom (files c)" "set (tmp_created b) \<subseteq> set (tmp_created c)"
    "set (tmp_created c) \<subseteq> set (tmp_created b) \<union> dom (files c)"
    using assms(2) by (simp_all add: keeps_files_def)
  have "dom (files a) \<subseteq> dom (files c)" using 1(1) 2(1) by (rule subset_trans)
  moreover have "set (tmp_created a) \<subseteq> set (tmp_created c)"
    using 1(2) 2(2) by (rule subset_trans)
  moreover have "set (tmp_created c) \<subseteq> set (tmp_created a) \<union> dom (files c)"
  proof
    fix p assume "p \<in> set (tmp_created c)"
    with 2(3) have "p \<in> set (tmp_created b) \<or> p \<in> dom (files c)" by (simp add: subset_iff)
    then show "p \<in> set (tmp_created a) \<union> dom (files c)"
    proof
      assume "p \<in> set (tmp_created b)"
      with 1(3) have "p \<in> set (tmp_created a) \<or> p \<in> dom (files b)" by (simp add: subset_iff)
      with 2(1) show ?thesis by (auto simp add: subset_iff)
    next
      assume "p \<in> dom (files c)"
      then show ?thesis by simp
    qed
  qed
  ultimately show ?thesis by (simp add: keeps_files_def)
qed

lemma keeps_files_emit: "keeps_files w (emit ev w)"
  by (simp add: keeps_files_def emit_def)

lemma keeps_files_write: "keeps_files w (write_file p r w)"
  by (auto simp add: keeps_files_def write_file_def split: write_result.splits option.splits)

lemma keeps_files_tmp: "keeps_files w (snd (named_temporary_file suffix w))"
  by (auto simp add: keeps_files_def named_temporary_file_def Let_def)

lemma tmp_file_exists:
  "named_temporary_file suffix w = (name, w1) \<Longrightarrow>
   name = tmp_name (tmp_counter w) suffix \<and> name \<in> dom (files w1) \<and> name \<in> set (tmp_created w1)"
  by (auto simp add: named_temporary_file_def Let_def)

lemma keeps_files_mix:
  "keeps_files w (snd (mix_with_music L vp mp outp pct fi fo w))"
proof (cases "load_inputs L vp mp (files w)")
  case (Inl e)
  then show ?thesis by (simp add: mix_with_music_def keeps_files_emit)
next
  case (Inr vm)
  obtain voice music where vm: "vm = (voice, music)" by (cases vm)
  show ?thesis
  proof (cases "mixed_buffer L voice music pct fi fo")
    case (Inl f)
    then show ?thesis
      using Inr vm by (cases f) (simp_all add: mix_with_music_def keeps_files_emit)
  next
    case mixed: (Inr m)
    show ?thesis
    proof (cases "write_exn (export L m ''mp3'' export_options)")
      case None
      then show ?thesis
        using Inr vm mixed by (simp add: mix_with_music_def Let_def keeps_files_write)
    next
      case (Some e)
      then show ?thesis
        using Inr vm mixed keeps_files_trans [OF keeps_files_write keeps_files_emit]
        by (simp add: mix_with_music_def Let_def)
    qed
  qed
qed

lemma keeps_files_export_test: "keeps_files w (snd (export_test L m w))"
proof -
  obtain name w1 where n: "named_temporary_file ''.mp3'' w = (name, w1)"
    by (cases "named_temporary_file ''.mp3'' w")
  have 1: "keeps_files w w1" using keeps_files_tmp [of w "''.mp3''"] n by simp
  have 2: "keeps_files w1 (write_file name (export L m ''mp3'' []) w1)"
    by (rule keeps_files_write)
  show ?thesis
    using n keeps_files_trans [OF 1 2]
    by (auto simp add: export_test_def Let_def split: option.splits
        intro: keeps_files_trans [OF _ keeps_files_emit])
qed

lemma keeps_files_test: "keeps_files w (snd (test_audio_files L vp mp w))"
  by (auto simp add: test_audio_files_def keeps_files_emit keeps_files_export_test
      split: sum.splits)

lemma keeps_files_tts: "keeps_files w (snd (generate_tts tts text voice filename rate pitch w))"
  by (simp add: generate_tts_def Let_def keeps_files_write)

lemma keeps_files_update:
  "p \<in> dom (files w) \<Longrightarrow> keeps_files w (w\<lparr>files := (files w)(p \<mapsto> bs)\<rparr>)"
  by (auto simp add: keeps_files_def)

lemma keeps_files_stage: "keeps_files w (snd (stage_music up w))"
proof -
  obtain mp w1 where a: "named_temporary_file (''.'' @ last (split_on (CHR ''.'') (fst up))) w = (mp, w1)"
    by (cases "named_temporary_file (''.'' @ last (split_on (CHR ''.'') (fst up))) w")
  let ?w2 = "w1\<lparr>files := (files w1)(mp \<mapsto> snd up)\<rparr>"
  obtain outp w3 where b: "named_temporary_file ''.mp3'' ?w2 = (outp, w3)"
    by (cases "named_temporary_file ''.mp3'' ?w2")
  have 1: "keeps_files w w1" using keeps_files_tmp [of w] a by (metis snd_conv)
  have 2: "keeps_files w1 ?w2" using tmp_file_exists [OF a] by (intro keeps_files_update) blast
  have 3: "keeps_files ?w2 w3" using keeps_files_tmp [of ?w2] b by (metis snd_conv)
  have "snd (stage_music up w) = w3"
    using a b by (simp add: stage_music_def Let_def)
  with keeps_files_trans [OF keeps_files_trans [OF 1 2] 3] show ?thesis by simp
qed

lemma keeps_files_offer: "keeps_files w (offer_download user_filename p w)"
  by (simp add: offer_download_def Let_def keeps_files_emit split: option.splits)

lemma temps_exist_kept: "temps_exist w \<Longrightarrow> keeps_files w w' \<Longrightarrow> temps_exist w'"
  unfolding temps_exist_def keeps_files_def list_all_iff by blast


lemma keeps_files_preview_tmp:
  assumes False: "strip text \<noteq> []"
  shows "keeps_files (snd (named_temporary_file ''.mp3'' w))
           (preview_button L tts text voice_id rate pitch use_music uploaded_music pct fi fo w)"
proof -
  obtain tv w1 where a: "named_temporary_file ''.mp3'' w = (tv, w1)"
    by (cases "named_temporary_file ''.mp3'' w")
  obtain raised w2 where b: "generate_tts tts text voice_id tv rate pitch w1 = (raised, w2)"
    by (cases "generate_tts tts text voice_id tv rate pitch w1")
  have w1: "snd (named_temporary_file ''.mp3'' w) = w1" using a by simp
  have 2: "keeps_files w1 w2" using keeps_files_tts [of w1 tts "text" voice_id tv rate pitch] b by simp
  note 12 = 2
  show ?thesis
  proof (cases raised)
    case (Some e)
    then show ?thesis
      using False a b keeps_files_trans [OF 12 keeps_files_emit]
      by (simp add: preview_button_def w1)
  next
    case None
    show ?thesis
    proof (cases "music_requested use_music uploaded_music pct")
      case no_music: None
      then show ?thesis
        using False a b None keeps_files_trans [OF 12 keeps_files_emit]
        by (simp add: preview_button_def w1)
    next
      case (Some up)
      obtain mp outp w3 where c: "stage_music up w2 = ((mp, outp), w3)"
        by (cases "stage_music up w2") auto
      obtain success w4 where d: "mix_with_music L tv mp outp pct fi fo w3 = (success, w4)"
        by (cases "mix_with_music L tv mp outp pct fi fo w3")
      have 3: "keeps_files w2 w3" using keeps_files_stage [of w2 up] c by simp
      have 4: "keeps_files w3 w4" using keeps_files_mix [of w3 L tv mp outp pct fi fo] d by simp
      have 14: "keeps_files w1 w4"
        by (rule keeps_files_trans [OF keeps_files_trans [OF 12 3] 4])
      show ?thesis
        using False a b None Some c d
          keeps_files_trans [OF 14 keeps_files_emit]
          keeps_files_trans [OF keeps_files_trans [OF 14 keeps_files_emit] keeps_files_emit]
        by (simp add: preview_button_def w1)
    qed
  qed
qed

lemma keeps_files_preview:
  "keeps_files w (preview_button L tts text voice_id rate pitch use_music uploaded_music pct fi fo w)"
proof (cases "strip text = []")
  case True
  then show ?thesis by (simp add: preview_button_def keeps_files_emit)
next
  case False
  from keeps_files_trans [OF keeps_files_tmp keeps_files_preview_tmp [OF False]]
  show ?thesis .
qed

lemma keeps_files_download_tmp:
  assumes False: "strip text \<noteq> []"
  shows "keeps_files (snd (named_temporary_file ''.mp3'' w))
           (download_button L tts text voice_id rate pitch use_music uploaded_music pct fi fo
              test_first user_filename w)"
proof -
  obtain tv w1 where a: "named_temporary_file ''.mp3'' w = (tv, w1)"
    by (cases "named_temporary_file ''.mp3'' w")
  obtain raised w2 where b: "generate_tts tts text voice_id tv rate pitch w1 = (raised, w2)"
    by (cases "generate_tts tts text voice_id tv rate pitch w1")
  have w1: "snd (named_temporary_file ''.mp3'' w) = w1" using a by simp
  have 2: "keeps_files w1 w2" using keeps_files_tts [of w1 tts "text" voice_id tv rate pitch] b by simp
  note 12 = 2
  show ?thesis
  proof (cases raised)
    case (Some e)
    then show ?thesis
      using False a b keeps_files_trans [OF 12 keeps_files_emit]
      by (simp add: download_button_def w1)
  next
    case None
    show ?thesis
    proof (cases "music_requested use_music uploaded_music pct")
      case no_music: None
      then show ?thesis
        using False a b None keeps_files_trans [OF 12 keeps_files_offer]
        by (simp add: download_button_def w1)
    next
      case (Some up)
      let ?w3 = "emit (St_info ''Mixing with background music...'') w2"
      obtain mp outp w4 where c: "stage_music up ?w3 = ((mp, outp), w4)"
        by (cases "stage_music up ?w3") auto
      let ?w5 = "if test_first then snd (test_audio_files L tv mp w4) else w4"
      obtain success w6 where d: "mix_with_music L tv mp outp pct fi fo ?w5 = (success, w6)"
        by (cases "mix_with_music L tv mp outp pct fi fo ?w5")
      have 3: "keeps_files w2 ?w3" by (rule keeps_files_emit)
      have 4: "keeps_files ?w3 w4" using keeps_files_stage [of ?w3 up] c by simp
      have 5: "keeps_files w4 ?w5" by (simp add: keeps_files_refl keeps_files_test)
      have 6: "keeps_files ?w5 w6" using keeps_files_mix [of ?w5 L tv mp outp pct fi fo] d by simp
      have 16: "keeps_files w1 w6"
        by (rule keeps_files_trans [OF keeps_files_trans [OF keeps_files_trans
              [OF keeps_files_trans [OF 12 3] 4] 5] 6])
      show ?thesis
        using False a b None Some c d
          keeps_files_trans [OF 16 keeps_files_offer]
          keeps_files_trans [OF keeps_files_trans [OF 16 keeps_files_emit] keeps_files_offer]
        by (simp add: download_button_def Let_def w1)
    qed
  qed
qed

lemma keeps_files_download:
  "keeps_files w (download_button L tts text voice_id rate pitch use_music uploaded_music pct fi fo
                    test_first user_filename w)"
proof (cases "strip text = []")
  case True
  then show ?thesis by (simp add: download_button_def keeps_files_emit)
next
  case False
  from keeps_files_trans [OF keeps_files_tmp keeps_files_download_tmp [OF False]]
  show ?thesis .
qed

lemma first_tmp_file_kept:
  "keeps_files (snd (named_temporary_file suffix w)) w' \<Longrightarrow>
   files w' (tmp_name (tmp_counter w) suffix) \<noteq> None"
  by (auto simp add: keeps_files_def named_temporary_file_def Let_def)

lemma tmp_created_emit: "tmp_created (emit ev w) = tmp_created w"
  by (simp add: emit_def)

lemma tmp_created_write: "tmp_created (write_file p r w) = tmp_created w"
  by (simp add: write_file_def split: write_result.splits option.splits)

lemma tmp_created_mix:
  "tmp_created (snd (mix_with_music L vp mp outp pct fi fo w)) = tmp_created w"
proof (cases "load_inputs L vp mp (files w)")
  case (Inl e)
  then show ?thesis by (simp add: mix_with_music_def tmp_created_emit)
next
  case (Inr vm)
  obtain voice music where vm: "vm = (voice, music)" by (cases vm)
  show ?thesis
  proof (cases "mixed_buffer L voice music pct fi fo")
    case (Inl f)
    then show ?thesis
      using Inr vm by (cases f) (simp_all add: mix_with_music_def tmp_created_emit)
  next
    case mixed: (Inr m)
    show ?thesis
      using Inr vm mixed
      by (cases "write_exn (export L m ''mp3'' export_options)")
         (simp_all add: mix_with_music_def Let_def tmp_created_emit tmp_created_write)
  qed
qed

lemma preview_world0_unfold:
  "preview_button spec_lib tts0 ''hi'' ''en-US-JennyNeural'' 100 0 True (Some song) 30 True True
     world0
   = (let r = mix_with_music spec_lib ''/tmp/tmp.mp3'' ''/tmp/tmp_.wav'' ''/tmp/tmp__.mp3'' 30
                True True staged
      in if fst r
         then emit (St_audio ''/tmp/tmp__.mp3'') (emit (St_success ''Preview with music ready'') (snd r))
         else emit (St_audio ''/tmp/tmp.mp3'') (snd r))"
  by (simp add: preview_button_def strip_def is_space_def named_temporary_file_def world0_def
      tmp_name_def generate_tts_def tts0_def write_file_def write_exn_def music_requested_def
      stage_music_def song_def Let_def staged_def numeral_3_eq_3 split_beta)

lemma spec_lib_ops:
  "len spec_lib = duration_ms"
  "frame_rate spec_lib = sample_rate"
  "channels spec_lib = channel_count"
  "set_frame_rate spec_lib b r = Inr (resample b r)"
  "set_channels spec_lib b c = Inr (remap b c)"
  "apply_gain spec_lib b db = Inr (gain b db)"
  "repeat spec_lib b n = Inr (loop b n)"
  "slice_to spec_lib b ms = Inr (trim b ms)"
  "fade_in spec_lib b ms = Inr (ramp_in b ms)"
  "fade_out spec_lib b ms = Inr (ramp_out b ms)"
  "overlay spec_lib a b = Inr (overlay_buffers a b)"
  by (simp_all add: spec_lib_def)

lemma nonempty_buffer:
  assumes "duration_ms b \<noteq> 0"
  shows "0 < sample_rate b" and "0 < channel_count b" and "0 < frame_count b"
proof -
  show r: "0 < sample_rate b" using assms by (cases "sample_rate b = 0") (simp_all add: duration_ms_def)
  show f: "0 < frame_count b" using assms by (cases "frame_count b = 0") (simp_all add: duration_ms_def)
  show "0 < channel_count b" using f by (cases "channel_count b = 0") (simp_all add: frame_count_def)
qed

lemma duration_ms_pos_iff:
  "0 < sample_rate b \<Longrightarrow> (duration_ms b \<noteq> 0) = (sample_rate b \<le> frame_count b * 1000)"
  by (simp add: duration_ms_def div_eq_0_iff not_less)

lemma length_concat_const:
  "(\<And>x. x \<in> set xs \<Longrightarrow> length (f x) = c) \<Longrightarrow> length (concat (map f xs)) = length xs * c"
  by (induction xs) simp_all

lemma length_frame_at:
  "i < frame_count b \<Longrightarrow> length (frame_at b i) = channel_count b"
proof -
  assume i: "i < frame_count b"
  have "frame_count b * channel_count b \<le> length (samples b)"
    by (simp add: frame_count_def)
  moreover have "(i + 1) * channel_count b \<le> frame_count b * channel_count b"
    using i by (intro mult_le_mono1) simp
  ultimately have "i * channel_count b + channel_count b \<le> length (samples b)" by simp
  then show ?thesis by (simp add: frame_at_def)
qed

lemma ceil_div_bound:
  fixes a j o' :: nat
  assumes "0 < o'" and "j < (a + o' - 1) div o'"
  shows "j * o' < a"
proof -
  have "Suc j \<le> (a + o' - 1) div o'" using assms by simp
  then have "Suc j * o' \<le> a + o' - 1" using assms(1) by (simp add: less_eq_div_iff_mult_less_eq)
  then show ?thesis using assms(1) by simp
qed

lemma ceil_div_covers:
  fixes a o' :: nat
  assumes "0 < o'"
  shows "a \<le> ((a + o' - 1) div o') * o'"
proof -
  have "a + o' - 1 < ((a + o' - 1) div o') * o' + o'"
    using assms by (metis add.commute dividend_less_div_times mult.commute)
  then show ?thesis using assms by simp
qed

lemma length_resampled_frame:
  assumes "0 < r" and "0 < sample_rate b"
    and "j < (frame_count b * r + sample_rate b - 1) div sample_rate b"
  shows "length (resampled_frame b r j) = channel_count b"
proof -
  have "j * sample_rate b < frame_count b * r"
    using assms(2,3) by (rule ceil_div_bound)
  then have i: "j * sample_rate b div r < frame_count b"
    using assms(1) by (simp add: less_mult_imp_div_less)
  then have "min (j * sample_rate b div r + 1) (frame_count b - 1) < frame_count b"
    by simp
  with i show ?thesis
    by (simp add: resampled_frame_def Let_def length_frame_at)
qed

lemma resample_shape:
  assumes "0 < r" and "0 < sample_rate b"
  shows "sample_rate (resample b r) = r"
    and "channel_count (resample b r) = channel_count b"
    and "length (samples (resample b r))
           = ((frame_count b * r + sample_rate b - 1) div sample_rate b) * channel_count b"
proof -
  show "sample_rate (resample b r) = r" "channel_count (resample b r) = channel_count b"
    by (simp_all add: resample_def)
  have "length (concat (map (resampled_frame b r)
            [0..<(frame_count b * r + sample_rate b - 1) div sample_rate b]))
        = length [0..<(frame_count b * r + sample_rate b - 1) div sample_rate b] * channel_count b"
    using assms by (intro length_concat_const length_resampled_frame) simp_all
  then show "length (samples (resample b r))
           = ((frame_count b * r + sample_rate b - 1) div sample_rate b) * channel_count b"
    by (simp add: resample_def)
qed

lemma resample_nonempty:
  assumes "0 < r" and "duration_ms b \<noteq> 0"
  shows "duration_ms (resample b r) \<noteq> 0"
proof -
  note pos = nonempty_buffer [OF assms(2)]
  let ?n = "(frame_count b * r + sample_rate b - 1) div sample_rate b"
  have fc: "frame_count (resample b r) = ?n"
    using resample_shape [OF assms(1) pos(1)] pos(2) by (simp add: frame_count_def)
  have a: "sample_rate b \<le> frame_count b * 1000"
    using assms(2) duration_ms_pos_iff [OF pos(1)] by blast
  have b: "frame_count b * r \<le> ?n * sample_rate b"
    using pos(1) by (rule ceil_div_covers)
  have "sample_rate b * r \<le> frame_count b * 1000 * r" using a by simp
  also have "\<dots> = (frame_count b * r) * 1000" by simp
  also have "\<dots> \<le> (?n * sample_rate b) * 1000" using b by (rule mult_le_mono1)
  also have "\<dots> = sample_rate b * (?n * 1000)" by simp
  finally have "r \<le> ?n * 1000" using pos(1) by simp
  then show ?thesis
    using assms(1) fc resample_shape(1) [OF assms(1) pos(1)]
    by (simp add: duration_ms_def div_eq_0_iff not_less)
qed

lemma remap_shape:
  assumes "0 < c"
  shows "sample_rate (remap b c) = sample_rate b"
    and "channel_count (remap b c) = c"
    and "length (samples (remap b c)) = frame_count b * c"
    and "frame_count (remap b c) = frame_count b"
    and "duration_ms (remap b c) = duration_ms b"
proof -
  show 1: "sample_rate (remap b c) = sample_rate b" and 2: "channel_count (remap b c) = c"
    by (simp_all add: remap_def)
  have "length (concat (map (\<lambda>i. replicate c (sum_list (frame_at b i) / real (channel_count b)))
            [0..<frame_count b])) = length [0..<frame_count b] * c"
    by (intro length_concat_const) simp
  then show 3: "length (samples (remap b c)) = frame_count b * c"
    by (simp add: remap_def)
  show 4: "frame_count (remap b c) = frame_count b"
    using assms 2 3 by (simp add: frame_count_def [of "remap b c"])
  show "duration_ms (remap b c) = duration_ms b"
    using 1 4 by (simp add: duration_ms_def)
qed

lemma gain_shape:
  "sample_rate (gain b db) = sample_rate b"
  "channel_count (gain b db) = channel_count b"
  "length (samples (gain b db)) = length (samples b)"
  "frame_count (gain b db) = frame_count b"
  "duration_ms (gain b db) = duration_ms b"
  by (simp_all add: gain_def frame_count_def duration_ms_def)

lemma overlay_shape:
  "sample_rate (overlay_buffers a b) = sample_rate a"
  "channel_count (overlay_buffers a b) = channel_count a"
  "length (samples (overlay_buffers a b)) = length (samples a)"
  "frame_count (overlay_buffers a b) = frame_count a"
  by (simp_all add: overlay_buffers_def frame_count_def)


lemma spec_lib_pipeline:
  assumes v: "duration_ms voice \<noteq> 0" and m: "duration_ms music \<noteq> 0" and p: "pct \<noteq> 0"
  obtains g matched where
    "bind_exn (align_format spec_lib voice music) (\<lambda>a. apply_gain spec_lib a (volume_db pct))
       = Inr g"
    and "sample_rate g = sample_rate voice"
    and "channel_count g = channel_count voice"
    and "duration_ms g \<noteq> 0"
    and "length (samples music) mod channel_count music = 0
         \<Longrightarrow> length (samples g) mod channel_count g = 0"
    and "match_duration spec_lib voice g = Inr matched"
    and "matched = trim (if duration_ms g < duration_ms voice
                         then loop g (duration_ms voice div duration_ms g + 1) else g)
                     (duration_ms voice)"
    and "mix_segments spec_lib voice music pct fi fo
           = Inr (overlay_buffers voice
                    (if fo then ramp_out (if fi then ramp_in matched 3000 else matched) 3000
                     else if fi then ramp_in matched 3000 else matched))"
proof -
  note vpos = nonempty_buffer [OF v] and mpos = nonempty_buffer [OF m]
  define a1 where
    "a1 = (if sample_rate voice \<noteq> sample_rate music then resample music (sample_rate voice)
           else music)"
  define a2 where
    "a2 = (if channel_count voice \<noteq> channel_count a1 then remap a1 (channel_count voice) else a1)"
  define g where "g = gain a2 (volume_db pct)"
  define matched where
    "matched = trim (if duration_ms g < duration_ms voice
                     then loop g (duration_ms voice div duration_ms g + 1) else g)
                 (duration_ms voice)"
  have r1: "sample_rate a1 = sample_rate voice"
    using resample_shape(1) [OF vpos(1) mpos(1)] by (simp add: a1_def)
  have d1: "duration_ms a1 \<noteq> 0"
    using resample_nonempty [OF vpos(1) m] m by (simp add: a1_def)
  have l1: "length (samples music) mod channel_count music = 0
            \<Longrightarrow> length (samples a1) mod channel_count a1 = 0"
    using resample_shape(2,3) [OF vpos(1) mpos(1)] by (simp add: a1_def)
  have r2: "sample_rate a2 = sample_rate voice"
    using r1 remap_shape(1) [OF vpos(2)] by (simp add: a2_def)
  have c2: "channel_count a2 = channel_count voice"
    using remap_shape(2) [OF vpos(2)] by (simp add: a2_def)
  have d2: "duration_ms a2 \<noteq> 0"
    using d1 remap_shape(5) [OF vpos(2)] by (simp add: a2_def)
  have l2: "length (samples music) mod channel_count music = 0
            \<Longrightarrow> length (samples a2) mod channel_count a2 = 0"
    using l1 remap_shape(2,3) [OF vpos(2), of a1] by (simp add: a2_def)
  have align: "align_format spec_lib voice music = Inr a2"
    by (simp add: align_format_def spec_lib_ops a1_def a2_def)
  have 1: "bind_exn (align_format spec_lib voice music)
             (\<lambda>a. apply_gain spec_lib a (volume_db pct)) = Inr g"
    by (simp add: align spec_lib_ops g_def)
  have 2: "sample_rate g = sample_rate voice" by (simp add: g_def gain_shape r2)
  have 3: "channel_count g = channel_count voice" by (simp add: g_def gain_shape c2)
  have 4: "duration_ms g \<noteq> 0" by (simp add: g_def gain_shape d2)
  have 5: "length (samples music) mod channel_count music = 0
           \<Longrightarrow> length (samples g) mod channel_count g = 0"
    using l2 by (simp add: g_def gain_shape)
  have 6: "match_duration spec_lib voice g = Inr matched"
    using 4 by (simp add: match_duration_def spec_lib_ops loop_count_def matched_def)
  have 7: "mix_segments spec_lib voice music pct fi fo
           = Inr (overlay_buffers voice
                    (if fo then ramp_out (if fi then ramp_in matched 3000 else matched) 3000
                     else if fi then ramp_in matched 3000 else matched))"
    using p 6 by (simp add: mix_segments_def align spec_lib_ops(6) g_def [symmetric]
        apply_fades_def spec_lib_ops(9-11))
  from that [OF 1 2 3 4 5 6 matched_def 7] show ?thesis .
qed

lemma length_concat_replicate: "length (concat (replicate n xs)) = n * length xs"
  by (induction n) simp_all

lemma loop_shape:
  "sample_rate (loop b n) = sample_rate b"
  "channel_count (loop b n) = channel_count b"
  "length (samples (loop b n)) = n * length (samples b)"
  by (simp_all add: loop_def length_concat_replicate)

lemma frame_count_loop:
  assumes "length (samples b) mod channel_count b = 0"
  shows "frame_count (loop b n) = n * frame_count b"
proof -
  have "channel_count b dvd length (samples b)" using assms by (simp add: dvd_eq_mod_eq_0)
  then show ?thesis
    by (simp add: frame_count_def [of "loop b n"] loop_shape frame_count_def [of b] div_mult_swap)
qed

lemma trim_shape:
  "sample_rate (trim b ms) = sample_rate b"
  "channel_count (trim b ms) = channel_count b"
  "length (samples (trim b ms)) = min (length (samples b)) (frames_of_ms b ms * channel_count b)"
  by (simp_all add: trim_def)

lemma frame_count_trim:
  assumes "0 < channel_count b" and "frames_of_ms b ms \<le> frame_count b"
  shows "frame_count (trim b ms) = frames_of_ms b ms"
proof -
  have "frames_of_ms b ms * channel_count b \<le> frame_count b * channel_count b"
    using assms(2) by (rule mult_le_mono1)
  also have "\<dots> \<le> length (samples b)" by (simp add: frame_count_def)
  finally have "length (samples (trim b ms)) = frames_of_ms b ms * channel_count b"
    by (simp add: trim_shape)
  then show ?thesis using assms(1) by (simp add: frame_count_def [of "trim b ms"] trim_shape)
qed

lemma duration_frames_bound:
  assumes "0 < sample_rate b"
  shows "duration_ms b * sample_rate b \<le> frame_count b * 1000"
  by (simp add: duration_ms_def)

lemma matched_frame_count:
  assumes sr: "sample_rate g = sample_rate voice" and "0 < sample_rate voice"
    and cc: "0 < channel_count g" and len: "length (samples g) mod channel_count g = 0"
    and dg: "duration_ms g \<noteq> 0"
  shows "frame_count (trim (if duration_ms g < duration_ms voice
                            then loop g (duration_ms voice div duration_ms g + 1) else g)
                        (duration_ms voice))
         = frames_of_ms voice (duration_ms voice)"
proof -
  let ?dv = "duration_ms voice" and ?dg = "duration_ms g"
  let ?k = "?dv div ?dg + 1"
  let ?b = "if ?dg < ?dv then loop g ?k else g"
  have rate: "sample_rate ?b = sample_rate voice" by (simp add: loop_shape sr)
  have chan: "channel_count ?b = channel_count g" by (simp add: loop_shape)
  have f: "frames_of_ms ?b ?dv = frames_of_ms voice ?dv"
    unfolding frames_of_ms_def rate ..
  have g: "?dg * sample_rate voice \<le> frame_count g * 1000"
    using duration_frames_bound [of g] assms(2) sr by simp
  have "?dv * sample_rate voice \<le> frame_count ?b * 1000"
  proof (cases "?dg < ?dv")
    case True
    have "?dv < ?k * ?dg"
      using dg dividend_less_div_times [of ?dg ?dv] by (simp add: mult.commute)
    then have "?dv * sample_rate voice \<le> ?k * ?dg * sample_rate voice"
      by (intro mult_le_mono1) simp
    also have "\<dots> = ?k * (?dg * sample_rate voice)" by (simp only: mult.assoc)
    also have "\<dots> \<le> ?k * (frame_count g * 1000)" using g by (rule mult_le_mono2)
    also have "\<dots> = frame_count (loop g ?k) * 1000" by (simp add: frame_count_loop [OF len])
    finally show ?thesis using True by simp
  next
    case False
    then have a: "?dv * sample_rate voice \<le> ?dg * sample_rate voice"
      by (intro mult_le_mono1) simp
    from le_trans [OF a g] False show ?thesis by simp
  qed
  then have "frames_of_ms voice ?dv \<le> frame_count ?b"
    by (simp add: frames_of_ms_def div_le_mono [of _ "frame_count ?b * 1000" 1000, simplified])
  then have "frames_of_ms ?b ?dv \<le> frame_count ?b" using f by simp
  from frame_count_trim [OF _ this] cc chan f show ?thesis by simp
qed

lemma ramp_in_shape:
  "sample_rate (ramp_in b ms) = sample_rate b"
  "channel_count (ramp_in b ms) = channel_count b"
  "length (samples (ramp_in b ms)) = length (samples b)"
  "frame_count (ramp_in b ms) = frame_count b"
  "fade_window (ramp_in b ms) ms' = fade_window b ms'"
  by (simp_all add: ramp_in_def frame_count_def fade_window_def frames_of_ms_def)

lemma ramp_in_nth:
  "k < length (samples b) \<Longrightarrow>
   samples (ramp_in b ms) ! k = ramp (fade_window b ms) (k div channel_count b) * samples b ! k"
  by (simp add: ramp_in_def nth_enumerate_eq)

lemma ramp_out_nth:
  "k < length (samples b) \<Longrightarrow>
   samples (ramp_out b ms) ! k
     = ramp (fade_window b ms) (frame_count b - 1 - k div channel_count b) * samples b ! k"
  by (simp add: ramp_out_def nth_enumerate_eq)

lemma valid_examples: "valid_buffer voice10" "valid_buffer music3"
  by (simp_all add: valid_buffer_def voice10_def music3_def)

lemma frames_voice10:
  "frame_count voice10 = 20" "frames_of_ms voice10 (duration_ms voice10) = 20"
  "frames_of_ms voice10 3000 = 6"
  by (simp_all add: frame_count_def frames_of_ms_def duration_ms_def voice10_def)


section \<open>The zero-volume shortcut\<close>

text \<open>
  C3. With \<^verbatim>\<open>music_volume_pct == 0\<close> and both inputs non-empty, the buffer handed to the
  export is the voice itself: the result does not depend on the music nor on any
  operation of the library other than \<^verbatim>\<open>len\<close>.
\<close>

theorem zero_volume_returns_voice:
  "len L voice \<noteq> 0 \<Longrightarrow> len L music \<noteq> 0 \<Longrightarrow>
   mixed_buffer L voice music 0 fade_in_flag fade_out_flag = Inr voice"
  by (simp add: mixed_buffer_def mix_segments_def)

theorem zero_volume_returns_voice_witness:
  "len spec_lib voice10 \<noteq> 0 \<and> len spec_lib music3 \<noteq> 0
   \<and> mixed_buffer spec_lib voice10 music3 0 True True = Inr voice10"
proof -
  have v: "len spec_lib voice10 \<noteq> 0"
    by (simp add: spec_lib_def duration_ms_def frame_count_def voice10_def)
  have m: "len spec_lib music3 \<noteq> 0"
    by (simp add: spec_lib_def duration_ms_def frame_count_def music3_def)
  from v m zero_volume_returns_voice [OF v m, of True True] show ?thesis by simp
qed


section \<open>Looping the music\<close>

text \<open>
  C2, as stated, fails. Line 81 repeats the music \<^verbatim>\<open>len(voice) // len(music) + 1\<close> times,
  not \<open>ceil(len(voice) / len(music))\<close> times: with a voice of 4000 ms and music of 2000 ms
  the music is repeated three times, where the ceiling is two.
\<close>

theorem loop_count_exceeds_ceiling:
  "len spec_lib music2 < len spec_lib voice4
   \<and> loop_count spec_lib voice4 music2 = 3
   \<and> nat \<lceil>real (len spec_lib voice4) / real (len spec_lib music2)\<rceil> = 2
   \<and> match_duration spec_lib voice4 music2 = Inr (trim (loop music2 3) 4000)"
  by (simp add: loop_count_def match_duration_def len_voice4 len_music2)
     (simp add: spec_lib_def)

text \<open>
  C2, amended. When the music is shorter than the voice, it is repeated
  \<open>floor(len(voice) / len(music)) + 1\<close> times and the result is sliced to the first
  \<^verbatim>\<open>len(voice)\<close> milliseconds. The count is never below the ceiling of the quotient, and
  equals it exactly when the length of the music does not divide the length of the voice.
\<close>

theorem match_duration_loops:
  assumes "len L music < len L voice" and "len L music \<noteq> 0"
  shows "match_duration L voice music =
           bind_exn (repeat L music (len L voice div len L music + 1))
             (\<lambda>looped. slice_to L looped (len L voice))
         \<and> nat \<lceil>real (len L voice) / real (len L music)\<rceil> \<le> len L voice div len L music + 1
         \<and> ((len L voice div len L music + 1 = nat \<lceil>real (len L voice) / real (len L music)\<rceil>)
              = (\<not> len L music dvd len L voice))"
  using assms by (simp add: match_duration_def loop_count_def ceiling_div_nat)

theorem match_duration_loops_witness:
  "len spec_lib music3 < len spec_lib voice10 \<and> len spec_lib music3 \<noteq> 0
   \<and> match_duration spec_lib voice10 music3 =
       bind_exn (repeat spec_lib music3 (len spec_lib voice10 div len spec_lib music3 + 1))
         (\<lambda>looped. slice_to spec_lib looped (len spec_lib voice10))
   \<and> len spec_lib voice10 div len spec_lib music3 + 1 = 4
   \<and> nat \<lceil>real (len spec_lib voice10) / real (len spec_lib music3)\<rceil> = 4"
proof -
  have a: "len spec_lib music3 < len spec_lib voice10" by (simp add: len_voice10 len_music3)
  have b: "len spec_lib music3 \<noteq> 0" by (simp add: len_music3)
  have c: "\<not> len spec_lib music3 dvd len spec_lib voice10" by (simp add: len_voice10 len_music3)
  have d: "len spec_lib voice10 div len spec_lib music3 + 1 = 4" by (simp add: len_voice10 len_music3)
  from match_duration_loops [OF a b] a b c d show ?thesis by simp
qed


section \<open>Empty inputs\<close>

text \<open>
  C6. When both files decode and one of the two segments has length zero,
  \<^verbatim>\<open>mix_with_music\<close> reports the empty-audio error and returns \<^verbatim>\<open>False\<close>; the state is
  otherwise unchanged, so nothing has been exported, and the result does not depend on
  any transformation of the library.
\<close>

theorem empty_input_rejected:
  assumes "load_inputs L voice_path music_path (files w) = Inr (voice, music)"
    and "len L voice = 0 \<or> len L music = 0"
  shows "mix_with_music L voice_path music_path output_path pct fade_in_flag fade_out_flag w
         = (False, emit (St_error empty_message) w)"
  using assms by (auto simp add: mix_with_music_def mixed_buffer_def)

theorem empty_input_rejected_witness:
  "load_inputs spec_lib ''voice.mp3'' ''silent.wav'' (files world0)
     = Inr (voice4, \<lparr>sample_rate = 1, channel_count = 1, samples = []\<rparr>)
   \<and> len spec_lib \<lparr>sample_rate = 1, channel_count = 1, samples = []\<rparr> = 0
   \<and> mix_with_music spec_lib ''voice.mp3'' ''silent.wav'' ''out.mp3'' 30 True True world0
       = (False, emit (St_error empty_message) world0)"
proof -
  have a: "load_inputs spec_lib ''voice.mp3'' ''silent.wav'' (files world0)
     = Inr (voice4, \<lparr>sample_rate = 1, channel_count = 1, samples = []\<rparr>)"
    by (simp add: load_inputs_def from_file_spec_lib load_silent_wav read_voice read_silent
        world0_def)
  have b: "len spec_lib \<lparr>sample_rate = 1, channel_count = 1, samples = []\<rparr> = 0"
    by (simp add: spec_lib_simps)
  have c: "mix_with_music spec_lib ''voice.mp3'' ''silent.wav'' ''out.mp3'' 30 True True world0
       = (False, emit (St_error empty_message) world0)"
    using b by (intro empty_input_rejected [OF a]) simp
  from a b c show ?thesis by simp
qed

text \<open>
  C10. With \<^verbatim>\<open>music_volume_pct == 0\<close> and a voice that decodes and is not empty, a music
  file that cannot be decoded or that decodes to an empty segment makes
  \<^verbatim>\<open>mix_with_music\<close> return \<^verbatim>\<open>False\<close> without writing any file: the shortcut of line 69
  comes after the decoding and the emptiness check.
\<close>

theorem zero_volume_still_checks_music:
  assumes "from_file L voice_path (Some ''mp3'') (files w) = Inr voice"
    and "len L voice \<noteq> 0"
    and "load_music L music_path (files w) = Inl e
         \<or> (\<exists>music. load_music L music_path (files w) = Inr music \<and> len L music = 0)"
  shows "fst (mix_with_music L voice_path music_path output_path 0 fade_in_flag fade_out_flag w)
           = False
         \<and> files (snd (mix_with_music L voice_path music_path output_path 0
                         fade_in_flag fade_out_flag w)) = files w"
  using assms
  by (auto simp add: mix_with_music_def load_inputs_def mixed_buffer_def emit_def)

theorem zero_volume_still_checks_music_witness:
  "from_file spec_lib ''voice.mp3'' (Some ''mp3'') (files world0) = Inr voice4
   \<and> len spec_lib voice4 \<noteq> 0
   \<and> load_music spec_lib ''broken.wav'' (files world0) = Inl ''could not decode''
   \<and> fst (mix_with_music spec_lib ''voice.mp3'' ''broken.wav'' ''out.mp3'' 0 True True world0)
       = False
   \<and> files (snd (mix_with_music spec_lib ''voice.mp3'' ''broken.wav'' ''out.mp3'' 0 True True
                   world0)) = files world0"
proof -
  have a: "from_file spec_lib ''voice.mp3'' (Some ''mp3'') (files world0) = Inr voice4"
    by (simp add: from_file_spec_lib read_voice world0_def)
  have b: "len spec_lib voice4 \<noteq> 0" by (simp add: len_voice4)
  have c: "load_music spec_lib ''broken.wav'' (files world0) = Inl ''could not decode''"
    by (simp add: load_broken_wav read_broken world0_def)
  have d: "load_music spec_lib ''broken.wav'' (files world0) = Inl ''could not decode''
         \<or> (\<exists>music. load_music spec_lib ''broken.wav'' (files world0) = Inr music
                     \<and> len spec_lib music = 0)"
    using c by simp
  from a b c zero_volume_still_checks_music [OF a b d] show ?thesis by simp
qed


section \<open>The diagnostic preview\<close>

text \<open>
  C9. \<^verbatim>\<open>test_audio_files\<close> exports the overlay of the first \<open>min (len voice) 5000\<close>
  milliseconds of the voice with the first \<open>min (len voice) 5000\<close> milliseconds of the
  music after a gain of \<open>-20\<close> dB; the volume percentage plays no part, and the overlay is
  the operation \<open>overlay\<close> that \<open>mix_segments\<close> uses.
\<close>

theorem test_audio_files_mix:
  assumes "from_file L voice_path None (files w) = Inr voice"
    and "from_file L music_path None (files w) = Inr music"
    and "apply_gain L music (- 20) = Inr quiet"
    and "slice_to L quiet (min (len L voice) 5000) = Inr test_music"
    and "slice_to L voice (min (len L voice) 5000) = Inr test_voice"
    and "overlay L test_voice test_music = Inr test_mixed"
  shows "test_mix L voice music = Inr test_mixed
         \<and> test_audio_files L voice_path music_path w = export_test L test_mixed w"
  using assms by (simp add: test_mix_def test_audio_files_def)

theorem test_audio_files_mix_witness:
  "from_file spec_lib ''voice.mp3'' None (files world0) = Inr voice4
   \<and> from_file spec_lib ''music.wav'' None (files world0) = Inr music2
   \<and> apply_gain spec_lib music2 (- 20) = Inr (gain music2 (- 20))
   \<and> slice_to spec_lib (gain music2 (- 20)) (min (len spec_lib voice4) 5000)
       = Inr (trim (gain music2 (- 20)) 4000)
   \<and> slice_to spec_lib voice4 (min (len spec_lib voice4) 5000) = Inr (trim voice4 4000)
   \<and> overlay spec_lib (trim voice4 4000) (trim (gain music2 (- 20)) 4000)
       = Inr (overlay_buffers (trim voice4 4000) (trim (gain music2 (- 20)) 4000))
   \<and> test_mix spec_lib voice4 music2
       = Inr (overlay_buffers (trim voice4 4000) (trim (gain music2 (- 20)) 4000))
   \<and> test_audio_files spec_lib ''voice.mp3'' ''music.wav'' world0
       = export_test spec_lib
           (overlay_buffers (trim voice4 4000) (trim (gain music2 (- 20)) 4000)) world0"
proof -
  have a: "from_file spec_lib ''voice.mp3'' None (files world0) = Inr voice4"
    by (simp add: from_file_spec_lib read_voice world0_def)
  have b: "from_file spec_lib ''music.wav'' None (files world0) = Inr music2"
    by (simp add: from_file_spec_lib read_music world0_def)
  have c: "apply_gain spec_lib music2 (- 20) = Inr (gain music2 (- 20))"
    by (simp add: spec_lib_def)
  have d: "slice_to spec_lib (gain music2 (- 20)) (min (len spec_lib voice4) 5000)
       = Inr (trim (gain music2 (- 20)) 4000)"
    by (simp add: len_voice4) (simp add: spec_lib_def)
  have e: "slice_to spec_lib voice4 (min (len spec_lib voice4) 5000) = Inr (trim voice4 4000)"
    by (simp add: len_voice4) (simp add: spec_lib_def)
  have f: "overlay spec_lib (trim voice4 4000) (trim (gain music2 (- 20)) 4000)
       = Inr (overlay_buffers (trim voice4 4000) (trim (gain music2 (- 20)) 4000))"
    by (simp add: spec_lib_def)
  from test_audio_files_mix [OF a b c d e f] a b c d e f show ?thesis by simp
qed


section \<open>The gain\<close>

text \<open>
  C4. The gain is \<open>-30 + 0.35 * music_volume_pct\<close> decibels, which is \<open>+5\<close> at 100 and
  \<open>-12.5\<close> at 50, and for every percentage other than zero it is applied to the music
  after the format alignment and before the looping. Applying a gain multiplies every
  sample by the linear factor of the gain (reference library). The arithmetic is exact:
  the rounding of Python's floating point is not modelled.
\<close>

theorem gain_formula:
  "volume_db 100 = 5 \<and> volume_db 50 = - 12.5
   \<and> (pct \<noteq> 0 \<longrightarrow> align_format L voice music = Inr aligned \<longrightarrow>
        mix_segments L voice music pct fade_in_flag fade_out_flag =
          bind_exn (apply_gain L aligned (- 30 + real_of_int pct * 0.35)) (\<lambda>gained.
          bind_exn (match_duration L voice gained) (\<lambda>matched.
          bind_exn (apply_fades L fade_in_flag fade_out_flag matched) (\<lambda>faded.
          overlay L voice faded))))
   \<and> apply_gain spec_lib b db = Inr (gain b db)
   \<and> samples (gain b db) = map (\<lambda>x. 10 powr (db / 20) * x) (samples b)"
  by (simp add: volume_db_def mix_segments_def spec_lib_def gain_def db_to_linear_def)

theorem gain_formula_witness:
  "(30::int) \<noteq> 0 \<and> align_format spec_lib voice10 music3 = Inr (remap (resample music3 2) 1)
   \<and> mix_segments spec_lib voice10 music3 30 True False =
        bind_exn (apply_gain spec_lib (remap (resample music3 2) 1) (- 30 + real_of_int 30 * 0.35))
          (\<lambda>gained.
          bind_exn (match_duration spec_lib voice10 gained) (\<lambda>matched.
          bind_exn (apply_fades spec_lib True False matched) (\<lambda>faded.
          overlay spec_lib voice10 faded)))"
  using gain_formula [of 30 spec_lib voice10 music3 "remap (resample music3 2) 1" True False]
    align_voice10_music3
  by simp


section \<open>Failures\<close>

text \<open>
  C7, as stated, fails. The handler of line 95 reports the text of the exception and
  nothing else, and the caller gets \<^verbatim>\<open>False\<close>: a run in which the decoding raises and a run
  in which the export raises the same text end in the same result and the same state, so
  the failing stage cannot be told from what the caller sees.
\<close>

theorem failing_stage_not_reported:
  "mix_with_music decode_fails ''voice.mp3'' ''music.wav'' ''out.mp3'' 30 True True world0
     = (False, emit (St_error ''Error mixing audio: boom'') world0)
   \<and> mix_with_music export_fails ''voice.mp3'' ''music.wav'' ''out.mp3'' 30 True True world0
     = (False, emit (St_error ''Error mixing audio: boom'') world0)"
  using decode_fails_run export_fails_run by simp

text \<open>
  C7, amended. Every exception raised while decoding, while computing the mixed segment
  or by the export is caught by the one handler: \<^verbatim>\<open>mix_with_music\<close> emits
  ``Error mixing audio:'' followed by the text of the exception, with no stage name, and
  returns \<^verbatim>\<open>False\<close>. The export is the last step, so after a failure before it the files
  are as they were; after a failed export the output path holds what the export left.
\<close>

theorem mix_failure_is_reported:
  "(load_inputs L voice_path music_path (files w) = Inl e \<longrightarrow>
      mix_with_music L voice_path music_path output_path pct fade_in_flag fade_out_flag w
        = (False, emit (St_error (''Error mixing audio: '' @ e)) w))
   \<and> (load_inputs L voice_path music_path (files w) = Inr (voice, music) \<longrightarrow>
      mixed_buffer L voice music pct fade_in_flag fade_out_flag = Inl (Raised e) \<longrightarrow>
      mix_with_music L voice_path music_path output_path pct fade_in_flag fade_out_flag w
        = (False, emit (St_error (''Error mixing audio: '' @ e)) w))
   \<and> (load_inputs L voice_path music_path (files w) = Inr (voice, music) \<longrightarrow>
      mixed_buffer L voice music pct fade_in_flag fade_out_flag = Inr mixed \<longrightarrow>
      export L mixed ''mp3'' export_options = Write_failed e left \<longrightarrow>
      mix_with_music L voice_path music_path output_path pct fade_in_flag fade_out_flag w
        = (False, emit (St_error (''Error mixing audio: '' @ e))
                    (write_file output_path (Write_failed e left) w)))"
  by (simp add: mix_with_music_def mix_error_message_def write_exn_def)

theorem mix_failure_is_reported_witness:
  "load_inputs decode_fails ''voice.mp3'' ''music.wav'' (files world0) = Inl ''boom''
   \<and> mix_with_music decode_fails ''voice.mp3'' ''music.wav'' ''out.mp3'' 30 True True world0
       = (False, emit (St_error (''Error mixing audio: '' @ ''boom'')) world0)
   \<and> load_inputs overlay_fails ''voice.mp3'' ''music.wav'' (files world0) = Inr (voice4, music2)
   \<and> mixed_buffer overlay_fails voice4 music2 30 True True = Inl (Raised ''boom'')
   \<and> mix_with_music overlay_fails ''voice.mp3'' ''music.wav'' ''out.mp3'' 30 True True world0
       = (False, emit (St_error (''Error mixing audio: '' @ ''boom'')) world0)
   \<and> (\<exists>mixed. mixed_buffer export_fails voice4 music2 30 True True = Inr mixed
         \<and> export export_fails mixed ''mp3'' export_options = Write_failed ''boom'' None
         \<and> mix_with_music export_fails ''voice.mp3'' ''music.wav'' ''out.mp3'' 30 True True
               world0
             = (False, emit (St_error (''Error mixing audio: '' @ ''boom''))
                         (write_file ''out.mp3'' (Write_failed ''boom'' None) world0)))"
proof -
  have a: "load_inputs decode_fails ''voice.mp3'' ''music.wav'' (files world0) = Inl ''boom''"
    by (simp add: load_inputs_def decode_fails_def)
  have b: "load_inputs overlay_fails ''voice.mp3'' ''music.wav'' (files world0)
             = Inr (voice4, music2)"
    by (simp add: load_inputs_overlay_fails world0_def)
  note c = mixed_overlay_fails
  from mix_failure_is_reported
         [of decode_fails "''voice.mp3''" "''music.wav''" world0 "''boom''" "''out.mp3''" 30 True True]
    a
  have d: "mix_with_music decode_fails ''voice.mp3'' ''music.wav'' ''out.mp3'' 30 True True world0
       = (False, emit (St_error (''Error mixing audio: '' @ ''boom'')) world0)"
    by blast
  from mix_failure_is_reported
         [of overlay_fails "''voice.mp3''" "''music.wav''" world0 "''boom''" "''out.mp3''" 30 True True
            voice4 music2]
    b c
  have e: "mix_with_music overlay_fails ''voice.mp3'' ''music.wav'' ''out.mp3'' 30 True True world0
       = (False, emit (St_error (''Error mixing audio: '' @ ''boom'')) world0)"
    by blast
  obtain mixed where m: "mixed_buffer export_fails voice4 music2 30 True True = Inr mixed"
    using mixed_export_fails by blast
  have x: "export export_fails mixed ''mp3'' export_options = Write_failed ''boom'' None"
    by (simp add: export_fails_def)
  have l: "load_inputs export_fails ''voice.mp3'' ''music.wav'' (files world0)
             = Inr (voice4, music2)"
    by (simp add: load_inputs_export_fails world0_def)
  from mix_failure_is_reported
         [of export_fails "''voice.mp3''" "''music.wav''" world0 "''boom''" "''out.mp3''" 30 True True
            voice4 music2 mixed None]
    l m x
  have f: "mix_with_music export_fails ''voice.mp3'' ''music.wav'' ''out.mp3'' 30 True True
               world0
             = (False, emit (St_error (''Error mixing audio: '' @ ''boom''))
                         (write_file ''out.mp3'' (Write_failed ''boom'' None) world0))"
    by blast
  from a b c d e m x f show ?thesis by blast
qed


section \<open>Temporary files\<close>

text \<open>
  C8, as stated, fails. Every temporary file is created with \<^verbatim>\<open>delete=False\<close> and the
  program never removes a file: after a Preview with music the three temporary files
  (voice, music, mixed result) are all still there.
\<close>

theorem preview_leaves_temporary_files:
  "tmp_created (preview_button spec_lib tts0 ''hi'' ''en-US-JennyNeural'' 100 0 True (Some song)
                  30 True True world0)
     = [''/tmp/tmp.mp3'', ''/tmp/tmp_.wav'', ''/tmp/tmp__.mp3'']
   \<and> files (preview_button spec_lib tts0 ''hi'' ''en-US-JennyNeural'' 100 0 True (Some song)
              30 True True world0) ''/tmp/tmp.mp3'' \<noteq> None
   \<and> files (preview_button spec_lib tts0 ''hi'' ''en-US-JennyNeural'' 100 0 True (Some song)
              30 True True world0) ''/tmp/tmp_.wav'' \<noteq> None
   \<and> files (preview_button spec_lib tts0 ''hi'' ''en-US-JennyNeural'' 100 0 True (Some song)
              30 True True world0) ''/tmp/tmp__.mp3'' \<noteq> None"
proof -
  let ?r = "mix_with_music spec_lib ''/tmp/tmp.mp3'' ''/tmp/tmp_.wav'' ''/tmp/tmp__.mp3'' 30
              True True staged"
  have t: "tmp_created (snd ?r) = [''/tmp/tmp.mp3'', ''/tmp/tmp_.wav'', ''/tmp/tmp__.mp3'']"
    by (simp add: tmp_created_mix) (simp add: staged_def)
  have "keeps_files staged (snd ?r)" by (rule keeps_files_mix)
  then have "dom (files staged) \<subseteq> dom (files (snd ?r))" by (simp add: keeps_files_def)
  moreover have "''/tmp/tmp.mp3'' \<in> dom (files staged)" "''/tmp/tmp_.wav'' \<in> dom (files staged)"
    "''/tmp/tmp__.mp3'' \<in> dom (files staged)"
    by (simp_all add: staged_def)
  ultimately have f: "files (snd ?r) ''/tmp/tmp.mp3'' \<noteq> None"
    "files (snd ?r) ''/tmp/tmp_.wav'' \<noteq> None" "files (snd ?r) ''/tmp/tmp__.mp3'' \<noteq> None"
    by blast+
  show ?thesis
    unfolding preview_world0_unfold Let_def using t f by (simp add: emit_def)
qed

text \<open>
  C8, amended. No temporary file is deleted. \<^verbatim>\<open>test_audio_files\<close>, the Preview button
  and the Download button remove no file, on any path, and every temporary file they
  created still exists when they end; whenever the text is not blank the temporary
  file of the voice exists after the Preview and after the Download, whether the
  synthesis or the mix succeeded or failed.
\<close>

theorem temporary_files_are_kept:
  assumes "temps_exist w"
  shows "temps_exist (snd (test_audio_files L voice_path music_path w))
         \<and> keeps_files w (snd (test_audio_files L voice_path music_path w))
         \<and> temps_exist (preview_button L tts text voice_id rate pitch use_music uploaded_music
                          pct fade_in_enabled fade_out_enabled w)
         \<and> keeps_files w (preview_button L tts text voice_id rate pitch use_music uploaded_music
                            pct fade_in_enabled fade_out_enabled w)
         \<and> temps_exist (download_button L tts text voice_id rate pitch use_music uploaded_music
                          pct fade_in_enabled fade_out_enabled test_first user_filename w)
         \<and> keeps_files w (download_button L tts text voice_id rate pitch use_music uploaded_music
                            pct fade_in_enabled fade_out_enabled test_first user_filename w)
         \<and> (strip text \<noteq> [] \<longrightarrow>
              files (preview_button L tts text voice_id rate pitch use_music uploaded_music
                       pct fade_in_enabled fade_out_enabled w)
                (tmp_name (tmp_counter w) ''.mp3'') \<noteq> None
              \<and> files (download_button L tts text voice_id rate pitch use_music uploaded_music
                         pct fade_in_enabled fade_out_enabled test_first user_filename w)
                  (tmp_name (tmp_counter w) ''.mp3'') \<noteq> None)"
  by (intro conjI impI temps_exist_kept [OF assms] keeps_files_test keeps_files_preview
      keeps_files_download first_tmp_file_kept keeps_files_preview_tmp
      keeps_files_download_tmp)

theorem temporary_files_are_kept_witness:
  "temps_exist world0 \<and> strip ''hi'' \<noteq> []
   \<and> temps_exist (preview_button spec_lib tts0 ''hi'' ''en-US-JennyNeural'' 100 0 True
                    (Some song) 30 True True world0)
   \<and> files (preview_button spec_lib tts0 ''hi'' ''en-US-JennyNeural'' 100 0 True
              (Some song) 30 True True world0) (tmp_name (tmp_counter world0) ''.mp3'') \<noteq> None
   \<and> files (download_button spec_lib tts0 ''hi'' ''en-US-JennyNeural'' 100 0 True
              (Some song) 30 True True True ''MyNarration'' world0)
         (tmp_name (tmp_counter world0) ''.mp3'') \<noteq> None"
proof -
  have a: "temps_exist world0" by (simp add: temps_exist_def world0_def)
  have b: "strip ''hi'' \<noteq> []" by (simp add: strip_def is_space_def)
  from temporary_files_are_kept [OF a, of spec_lib _ _ tts0 "''hi''" "''en-US-JennyNeural''" 100 0
      True "Some song" 30 True True True "''MyNarration''"] a b
  show ?thesis by blast
qed


section \<open>The length of the mix\<close>

text \<open>
  C1. On the reference library, for every non-empty voice and music and every positive
  percentage, \<^verbatim>\<open>mix_with_music\<close> computes a buffer to export, and that buffer has
  exactly the frame count (and the sample rate and channel count) of the voice, whether
  the music was looped or cut: the overlay runs over the positions of the voice.
\<close>

theorem mix_keeps_voice_frame_count:
  assumes "len spec_lib voice \<noteq> 0" and "len spec_lib music \<noteq> 0" and "0 < pct"
  shows "\<exists>out. mixed_buffer spec_lib voice music pct fade_in_flag fade_out_flag = Inr out
               \<and> frame_count out = frame_count voice
               \<and> sample_rate out = sample_rate voice
               \<and> channel_count out = channel_count voice"
proof -
  have v: "duration_ms voice \<noteq> 0" and m: "duration_ms music \<noteq> 0" and p: "pct \<noteq> 0"
    using assms by (simp_all add: spec_lib_ops)
  from spec_lib_pipeline [OF v m p, of fade_in_flag fade_out_flag]
  obtain faded where
    "mix_segments spec_lib voice music pct fade_in_flag fade_out_flag
       = Inr (overlay_buffers voice faded)"
    by metis
  then have "mixed_buffer spec_lib voice music pct fade_in_flag fade_out_flag
               = Inr (overlay_buffers voice faded)"
    using assms(1,2) by (simp add: mixed_buffer_def)
  then show ?thesis by (simp add: overlay_shape)
qed

theorem mix_keeps_voice_frame_count_witness:
  "len spec_lib voice10 \<noteq> 0 \<and> len spec_lib music3 \<noteq> 0 \<and> (0::int) < 30
   \<and> (\<exists>out. mixed_buffer spec_lib voice10 music3 30 True False = Inr out
              \<and> frame_count out = 20)"
proof -
  have v: "len spec_lib voice10 \<noteq> 0" by (simp add: len_voice10)
  have m: "len spec_lib music3 \<noteq> 0" by (simp add: len_music3)
  have p: "(0::int) < 30" by simp
  from mix_keeps_voice_frame_count [OF v m p, of True False] v m p frames_voice10(1)
  show ?thesis by auto
qed


section \<open>The fades\<close>

text \<open>
  C5. On the reference library, for valid non-empty inputs and a percentage other than
  zero, the fades are applied to the music after it has been aligned, gained, looped and
  cut to the length of the voice: that buffer has exactly the frames of the voice's
  duration, the fade-in is applied to it and the fade-out to the result. Each fade is a
  linear ramp over a window of the frames of 3000 ms, or of the whole buffer when it is
  shorter; the fade-in multiplies frame \<open>i\<close> of the window by \<open>i / window\<close>, starting
  at zero, and leaves the frames after the window as they are; the fade-out mirrors it,
  so the last frame of the matched buffer is the silent end of the ramp.
\<close>

theorem fades_after_duration_matching:
  assumes "valid_buffer voice" and "valid_buffer music"
    and "len spec_lib voice \<noteq> 0" and "len spec_lib music \<noteq> 0" and "pct \<noteq> 0"
  shows "\<exists>matched.
           bind_exn (align_format spec_lib voice music) (\<lambda>aligned.
           bind_exn (apply_gain spec_lib aligned (volume_db pct)) (\<lambda>gained.
           match_duration spec_lib voice gained)) = Inr matched
         \<and> sample_rate matched = sample_rate voice
         \<and> channel_count matched = channel_count voice
         \<and> frame_count matched = frames_of_ms voice (duration_ms voice)
         \<and> mixed_buffer spec_lib voice music pct fade_in_flag fade_out_flag
             = Inr (overlay_buffers voice
                      (if fade_out_flag
                       then ramp_out (if fade_in_flag then ramp_in matched 3000 else matched) 3000
                       else if fade_in_flag then ramp_in matched 3000 else matched))
         \<and> fade_window matched 3000 = min (frames_of_ms voice 3000) (frame_count matched)
         \<and> fade_window (ramp_in matched 3000) 3000 = fade_window matched 3000
         \<and> frame_count (ramp_in matched 3000) = frame_count matched
         \<and> (\<forall>b k. k < length (samples b) \<longrightarrow>
                samples (ramp_in b 3000) ! k
                  = ramp (fade_window b 3000) (k div channel_count b) * samples b ! k)
         \<and> (\<forall>b k. k < length (samples b) \<longrightarrow>
                samples (ramp_out b 3000) ! k
                  = ramp (fade_window b 3000) (frame_count b - 1 - k div channel_count b)
                    * samples b ! k)
         \<and> (\<forall>n j. ramp n j = (if j < n then real j / real n else 1))"
proof -
  have v: "duration_ms voice \<noteq> 0" and m: "duration_ms music \<noteq> 0"
    using assms(3,4) by (simp_all add: spec_lib_ops)
  have mv: "length (samples music) mod channel_count music = 0"
    using assms(2) by (simp add: valid_buffer_def)
  note vpos = nonempty_buffer [OF v]
  from spec_lib_pipeline [OF v m assms(5), of fade_in_flag fade_out_flag]
  obtain g matched where
    1: "bind_exn (align_format spec_lib voice music) (\<lambda>a. apply_gain spec_lib a (volume_db pct))
          = Inr g"
    and 2: "sample_rate g = sample_rate voice"
    and 3: "channel_count g = channel_count voice"
    and 4: "duration_ms g \<noteq> 0"
    and 5: "length (samples g) mod channel_count g = 0"
    and 6: "match_duration spec_lib voice g = Inr matched"
    and 7: "matched = trim (if duration_ms g < duration_ms voice
                            then loop g (duration_ms voice div duration_ms g + 1) else g)
                        (duration_ms voice)"
    and 8: "mix_segments spec_lib voice music pct fade_in_flag fade_out_flag
              = Inr (overlay_buffers voice
                       (if fade_out_flag
                        then ramp_out (if fade_in_flag then ramp_in matched 3000 else matched) 3000
                        else if fade_in_flag then ramp_in matched 3000 else matched))"
    using mv by metis
  have a: "bind_exn (align_format spec_lib voice music) (\<lambda>aligned.
           bind_exn (apply_gain spec_lib aligned (volume_db pct)) (\<lambda>gained.
           match_duration spec_lib voice gained)) = Inr matched"
    using 1 6 by (cases "align_format spec_lib voice music") (simp_all add: spec_lib_ops)
  have b: "sample_rate matched = sample_rate voice"
    by (simp add: 7 trim_shape loop_shape 2)
  have c: "channel_count matched = channel_count voice"
    by (simp add: 7 trim_shape loop_shape 3)
  have d: "frame_count matched = frames_of_ms voice (duration_ms voice)"
    unfolding 7 using 2 vpos(1) 3 vpos(2) 5 4 by (intro matched_frame_count) simp_all
  have e: "mixed_buffer spec_lib voice music pct fade_in_flag fade_out_flag
             = Inr (overlay_buffers voice
                      (if fade_out_flag
                       then ramp_out (if fade_in_flag then ramp_in matched 3000 else matched) 3000
                       else if fade_in_flag then ramp_in matched 3000 else matched))"
    using assms(3,4) 8 by (simp add: mixed_buffer_def)
  have f: "fade_window matched 3000 = min (frames_of_ms voice 3000) (frame_count matched)"
    by (simp add: fade_window_def frames_of_ms_def b)
  have r: "\<forall>n j. ramp n j = (if j < n then real j / real n else 1)"
    by (simp add: ramp_def)
  from a b c d e f r show ?thesis
    by (intro exI [of _ matched] conjI allI impI ramp_in_nth ramp_out_nth ramp_in_shape)
       simp_all
qed

theorem fades_after_duration_matching_witness:
  "valid_buffer voice10 \<and> valid_buffer music3 \<and> len spec_lib voice10 \<noteq> 0
   \<and> len spec_lib music3 \<noteq> 0 \<and> (30::int) \<noteq> 0
   \<and> (\<exists>matched. frame_count matched = 20
          \<and> fade_window matched 3000 = 6
          \<and> mixed_buffer spec_lib voice10 music3 30 True False
              = Inr (overlay_buffers voice10 (ramp_in matched 3000)))"
proof -
  have v: "len spec_lib voice10 \<noteq> 0" by (simp add: len_voice10)
  have m: "len spec_lib music3 \<noteq> 0" by (simp add: len_music3)
  have p: "(30::int) \<noteq> 0" by simp
  from fades_after_duration_matching [OF valid_examples v m p, of True False]
  obtain matched where
    a: "frame_count matched = frames_of_ms voice10 (duration_ms voice10)"
    and b: "fade_window matched 3000 = min (frames_of_ms voice10 3000) (frame_count matched)"
    and c: "mixed_buffer spec_lib voice10 music3 30 True False
              = Inr (overlay_buffers voice10 (ramp_in matched 3000))"
    by auto
  have "frame_count matched = 20" using a by (simp add: frames_voice10)
  moreover from this have "fade_window matched 3000 = 6" using b by (simp add: frames_voice10)
  ultimately show ?thesis using valid_examples v m p c by blast
qed

end
